theory Spec2Isabelle
  imports Main "HOL-Library.Finite_Map"
begin

section \<open>JavaScript values\<close>

text \<open>
  The backend (\<^verbatim>\<open>backend/app.js\<close>) keeps a JSON document \<^verbatim>\<open>data.json\<close> and serves
  it through its Express routes. The values the handlers touch are the values
  \<^verbatim>\<open>JSON.parse\<close> produces, together with the numbers \<^verbatim>\<open>parseInt\<close> returns.

  Numbers are IEEE doubles. The handlers compute with the results of \<^verbatim>\<open>parseInt\<close> only:
  \<^verbatim>\<open>NaN\<close>, the two infinities, and doubles whose value is an integer, written \<open>Num n\<close>
  (\<open>-0\<close> and \<open>0\<close> are one value: no handler tells them apart). An integer is a double
  when it has at most 53 significant bits; \<open>to_double\<close> rounds any integer to the
  nearest one, as \<^verbatim>\<open>parseInt\<close> and \<^verbatim>\<open>+\<close> do. A value \<open>Num n\<close> whose \<open>n\<close> is not a
  double stands for no number of the program: neither \<^verbatim>\<open>JSON.parse\<close> nor \<^verbatim>\<open>parseInt\<close>
  nor \<^verbatim>\<open>+\<close> produces one. Numbers with a fraction are not modelled.

  Strings are lists of characters (code units below 256). Objects are finite maps from
  property names to values: the order of the keys plays no part in any handler.
\<close>

datatype number = NaN | PosInf | NegInf | Num int

datatype json =
    JNull
  | JBool bool
  | JNum number
  | JStr string
  | JArr "json list"
  | JObj "(string, json) fmap"

type_synonym obj = "(string, json) fmap"

text \<open>Every exception the handlers can meet is a \<^verbatim>\<open>TypeError\<close>: a property read on
  \<^verbatim>\<open>null\<close>, a call of something that is not a function, or the conversion to a string
  of an object that cannot be converted.\<close>

datatype error = TypeError

subsection \<open>Rounding an integer to a double\<close>

text \<open>The number of low bits a magnitude loses when it is cut to 53 significant bits.\<close>

function double_shift :: "int \<Rightarrow> nat" where
  "double_shift a = (if a < 2 ^ 53 then 0 else Suc (double_shift (a div 2)))"
  by pat_completeness auto
termination
  by (relation "measure nat") auto

declare double_shift.simps [simp del]

text \<open>Round to nearest, ties to the even significand.\<close>

definition round_magnitude :: "int \<Rightarrow> int" where
  "round_magnitude a =
     (let e = double_shift a; q = a div 2 ^ e; r = a mod 2 ^ e
      in (if 2 ^ e < 2 * r \<or> (2 * r = 2 ^ e \<and> odd q) then q + 1 else q) * 2 ^ e)"

text \<open>Magnitudes up to \<open>2^53\<close> are doubles already; a magnitude that rounds to \<open>2^1024\<close>
  or more is infinite.\<close>

definition to_double :: "int \<Rightarrow> number" where
  "to_double n =
     (let a = \<bar>n\<bar> in
      if a \<le> 2 ^ 53 then Num n
      else (let m = round_magnitude a in
            if 2 ^ 1024 \<le> m then (if n < 0 then NegInf else PosInf)
            else Num (if n < 0 then - m else m)))"

text \<open>\<^verbatim>\<open>x + 1\<close>\<close>

definition plus_one :: "number \<Rightarrow> number" where
  "plus_one x = (case x of Num n \<Rightarrow> to_double (n + 1) | _ \<Rightarrow> x)"

text \<open>The order of the numbers other than \<^verbatim>\<open>NaN\<close>, and \<^verbatim>\<open>Math.max\<close> of two of them.\<close>

definition number_le :: "number \<Rightarrow> number \<Rightarrow> bool" where
  "number_le a b =
     (case (a, b) of
        (NaN, _) \<Rightarrow> False
      | (_, NaN) \<Rightarrow> False
      | (NegInf, _) \<Rightarrow> True
      | (_, PosInf) \<Rightarrow> True
      | (Num x, Num y) \<Rightarrow> x \<le> y
      | _ \<Rightarrow> False)"

definition Math_max :: "number \<Rightarrow> number \<Rightarrow> number" where
  "Math_max a b = (if a = NaN \<or> b = NaN then NaN else if number_le a b then b else a)"

subsection \<open>Number to string\<close>

definition digit_char :: "int \<Rightarrow> char" where
  "digit_char d = char_of (48 + d)"

text \<open>The decimal numeral of an integer that is not negative.\<close>

function show_nat :: "int \<Rightarrow> string" where
  "show_nat n = (if n < 10 then [digit_char n] else show_nat (n div 10) @ [digit_char (n mod 10)])"
  by pat_completeness auto
termination
  by (relation "measure nat") auto

declare show_nat.simps [simp del]

definition show_int :: "int \<Rightarrow> string" where
  "show_int n = (if n < 0 then CHR ''-'' # show_nat (- n) else show_nat n)"

text \<open>
  \<^verbatim>\<open>String(x)\<close> of a double prints the shortest decimal \<open>s * 10^e\<close> that rounds to \<open>x\<close>
  (the nearest to \<open>x\<close> when several of that length do). \<open>candidate x e k\<close> looks for such
  an \<open>s\<close> with \<open>k\<close> digits next to \<open>x / 10^e\<close>.
\<close>

definition candidate :: "int \<Rightarrow> nat \<Rightarrow> nat \<Rightarrow> int option" where
  "candidate x e k =
     (let s0 = x div 10 ^ e; s1 = s0 + 1;
          ok = (\<lambda>s. 10 ^ (k - 1) \<le> s \<and> s < 10 ^ k \<and> round_magnitude (s * 10 ^ e) = x)
      in if ok s0 \<and> ok s1 then
           (let d0 = x - s0 * 10 ^ e; d1 = s1 * 10 ^ e - x
            in if d0 < d1 then Some s0 else if d1 < d0 then Some s1
               else if even s0 then Some s0 else Some s1)
         else if ok s0 then Some s0
         else if ok s1 then Some s1
         else None)"

fun shortest_from :: "nat \<Rightarrow> int \<Rightarrow> nat \<Rightarrow> nat \<Rightarrow> (int \<times> nat) option" where
  "shortest_from 0 x d k = None"
| "shortest_from (Suc fuel) x d k =
     (if d < k then None
      else (case candidate x (d - k) k of
              Some s \<Rightarrow> Some (s, d - k)
            | None \<Rightarrow> shortest_from fuel x d (Suc k)))"

text \<open>Seventeen digits identify every double. The first test is the one case where the
  shortest decimal has one digit more before the point than \<open>x\<close> itself: a power of ten
  that rounds down to \<open>x\<close>.\<close>

definition shortest_digits :: "int \<Rightarrow> int \<times> nat" where
  "shortest_digits x =
     (let d = length (show_nat x) in
      if round_magnitude (10 ^ d) = x then (1, d)
      else (case shortest_from 17 x d 1 of Some r \<Rightarrow> r | None \<Rightarrow> (x, 0)))"

text \<open>Up to 21 digits before the point the digits are printed in full, the exponent
  notation takes over from \<open>1e21\<close>. Below \<open>2^53\<close> every integer is a double and its
  numeral is the shortest decimal.\<close>

definition show_magnitude :: "int \<Rightarrow> string" where
  "show_magnitude x =
     (if x \<le> 2 ^ 53 then show_nat x
      else (let (s, e) = shortest_digits x; ds = show_nat s; n = e + length ds
            in if n \<le> 21 then ds @ replicate e CHR ''0''
               else if length ds = 1 then ds @ ''e+'' @ show_nat (int n - 1)
               else hd ds # CHR ''.'' # tl ds @ ''e+'' @ show_nat (int n - 1)))"

definition number_toString :: "number \<Rightarrow> string" where
  "number_toString x =
     (case x of
        NaN \<Rightarrow> ''NaN''
      | PosInf \<Rightarrow> ''Infinity''
      | NegInf \<Rightarrow> ''-Infinity''
      | Num n \<Rightarrow> if n < 0 then CHR ''-'' # show_magnitude (- n) else show_magnitude n)"

subsection \<open>ToString of a value\<close>

fun join_comma :: "string list \<Rightarrow> string" where
  "join_comma [] = []"
| "join_comma [s] = s"
| "join_comma (s # t # ss) = s @ CHR '','' # join_comma (t # ss)"

text \<open>
  \<^verbatim>\<open>String(v)\<close>. An array joins its elements with commas, \<^verbatim>\<open>null\<close> elements giving the
  empty string. A plain object gives \<^verbatim>\<open>[object Object]\<close> through the inherited
  \<^verbatim>\<open>toString\<close>; an own property \<^verbatim>\<open>toString\<close> hides that method, is not callable itself,
  and \<^verbatim>\<open>valueOf\<close> returns the object, so the conversion throws.
\<close>

fun js_toString :: "json \<Rightarrow> error + string" where
  "js_toString JNull = Inr ''null''"
| "js_toString (JBool b) = Inr (if b then ''true'' else ''false'')"
| "js_toString (JNum x) = Inr (number_toString x)"
| "js_toString (JStr s) = Inr s"
| "js_toString (JArr xs) =
     (let rs = map (\<lambda>x. case x of JNull \<Rightarrow> Inr [] | _ \<Rightarrow> js_toString x) xs
      in if list_ex isl rs then Inl TypeError else Inr (join_comma (map projr rs)))"
| "js_toString (JObj m) =
     (if fmlookup m ''toString'' = None then Inr ''[object Object]'' else Inl TypeError)"

subsection \<open>parseInt\<close>

text \<open>\<^verbatim>\<open>parseInt(string)\<close> with no radix: skip leading white space, read an optional
  sign, switch to radix 16 after a \<^verbatim>\<open>0x\<close> or \<^verbatim>\<open>0X\<close> prefix, take the longest run of
  digits; no digit at all gives \<^verbatim>\<open>NaN\<close>. Whatever follows the digits is ignored. The
  value of the digits is rounded to a double.\<close>

definition is_white_space :: "char \<Rightarrow> bool" where
  "is_white_space c = (of_char c \<in> {9, 10, 11, 12, 13, 32, 160 :: nat})"

definition digit_value :: "char \<Rightarrow> nat option" where
  "digit_value c =
     (let k = (of_char c :: nat) in
      if 48 \<le> k \<and> k \<le> 57 then Some (k - 48)
      else if 97 \<le> k \<and> k \<le> 102 then Some (k - 87)
      else if 65 \<le> k \<and> k \<le> 70 then Some (k - 55)
      else None)"

definition is_digit :: "nat \<Rightarrow> char \<Rightarrow> bool" where
  "is_digit radix c = (case digit_value c of None \<Rightarrow> False | Some d \<Rightarrow> d < radix)"

definition digits_value :: "nat \<Rightarrow> string \<Rightarrow> int" where
  "digits_value radix z =
     foldl (\<lambda>acc c. acc * int radix + (case digit_value c of None \<Rightarrow> 0 | Some d \<Rightarrow> int d)) 0 z"

definition strip_sign :: "string \<Rightarrow> bool \<times> string" where
  "strip_sign s =
     (case s of
        c # rest \<Rightarrow>
          if c = CHR ''-'' then (True, rest)
          else if c = CHR ''+'' then (False, rest)
          else (False, s)
      | [] \<Rightarrow> (False, s))"

definition strip_prefix :: "string \<Rightarrow> nat \<times> string" where
  "strip_prefix s =
     (case s of
        a # b # rest \<Rightarrow>
          if a = CHR ''0'' \<and> (b = CHR ''x'' \<or> b = CHR ''X'') then (16, rest) else (10, s)
      | _ \<Rightarrow> (10, s))"

definition parseInt_string :: "string \<Rightarrow> number" where
  "parseInt_string inputString =
     (let (negative, s1) = strip_sign (dropWhile is_white_space inputString);
          (radix, s2) = strip_prefix s1;
          z = takeWhile (is_digit radix) s2
      in if z = [] then NaN
         else to_double ((if negative then - 1 else 1) * digits_value radix z))"

text \<open>\<^verbatim>\<open>parseInt(v)\<close> converts its argument to a string first, which can throw; \<open>None\<close> is
  \<^verbatim>\<open>undefined\<close>, the value of a missing property.\<close>

definition parseInt :: "json option \<Rightarrow> error + number" where
  "parseInt v =
     (case v of
        None \<Rightarrow> Inr (parseInt_string ''undefined'')
      | Some x \<Rightarrow> (case js_toString x of Inl e \<Rightarrow> Inl e | Inr s \<Rightarrow> Inr (parseInt_string s)))"

text \<open>Strict equality of two numbers: \<^verbatim>\<open>NaN === NaN\<close> is false.\<close>

definition strict_eq :: "number \<Rightarrow> number \<Rightarrow> bool" where
  "strict_eq a b = (a \<noteq> NaN \<and> a = b)"

section \<open>The record store\<close>

text \<open>
  The backing document \<^verbatim>\<open>data.json\<close> is absent, present but unreadable
  (\<^verbatim>\<open>readFileSync\<close> throws), or holds text. \<open>writable\<close> says whether
  \<^verbatim>\<open>writeFileSync\<close> succeeds. \<^verbatim>\<open>JSON.parse\<close> and \<^verbatim>\<open>JSON.stringify\<close> belong to the
  language runtime and are parameters of the model: \<open>JSON_parse s = None\<close> is a
  \<^verbatim>\<open>SyntaxError\<close>.
\<close>

datatype document = Absent | Unreadable | Text string

record fs =
  data_json :: document
  writable :: bool

type_synonym parser = "string \<Rightarrow> json option"
type_synonym printer = "json \<Rightarrow> string"

text \<open>\<^verbatim>\<open>readDataFromFile\<close>: the empty string is falsy, and the \<^verbatim>\<open>catch\<close> turns both a
  failed read and a failed parse into the empty array.\<close>

definition readDataFromFile :: "parser \<Rightarrow> fs \<Rightarrow> json" where
  "readDataFromFile JSON_parse st =
     (case data_json st of
        Absent \<Rightarrow> JArr []
      | Unreadable \<Rightarrow> JArr []
      | Text fileData \<Rightarrow>
          if fileData = [] then JArr []
          else (case JSON_parse fileData of None \<Rightarrow> JArr [] | Some v \<Rightarrow> v))"

text \<open>\<^verbatim>\<open>writeDataToFile\<close>: a failed write is logged and nothing else happens.\<close>

definition writeDataToFile :: "printer \<Rightarrow> fs \<Rightarrow> json \<Rightarrow> fs" where
  "writeDataToFile JSON_stringify st data =
     (if writable st then st\<lparr>data_json := Text (JSON_stringify data)\<rparr> else st)"

subsection \<open>Property access and array methods\<close>

text \<open>\<^verbatim>\<open>item.id\<close>: a \<^verbatim>\<open>TypeError\<close> on \<^verbatim>\<open>null\<close>, the property of an object,
  \<^verbatim>\<open>undefined\<close> on every other value.\<close>

definition item_id :: "json \<Rightarrow> error + json option" where
  "item_id item =
     (case item of
        JNull \<Rightarrow> Inl TypeError
      | JObj m \<Rightarrow> Inr (fmlookup m ''id'')
      | _ \<Rightarrow> Inr None)"

text \<open>\<^verbatim>\<open>parseInt(item.id)\<close>\<close>

definition parseInt_item_id :: "json \<Rightarrow> error + number" where
  "parseInt_item_id item = (case item_id item of Inl e \<Rightarrow> Inl e | Inr v \<Rightarrow> parseInt v)"

text \<open>The callback \<^verbatim>\<open>item => parseInt(item.id) === id\<close> of Get and Update.\<close>

definition id_matches :: "number \<Rightarrow> json \<Rightarrow> error + bool" where
  "id_matches ident item =
     (case parseInt_item_id item of
        Inl e \<Rightarrow> Inl e
      | Inr x \<Rightarrow> Inr (strict_eq x ident))"

fun array_map :: "('a \<Rightarrow> error + 'b) \<Rightarrow> 'a list \<Rightarrow> error + 'b list" where
  "array_map f [] = Inr []"
| "array_map f (x # xs) =
     (case f x of
        Inl e \<Rightarrow> Inl e
      | Inr y \<Rightarrow> (case array_map f xs of Inl e \<Rightarrow> Inl e | Inr ys \<Rightarrow> Inr (y # ys)))"

fun array_filter :: "('a \<Rightarrow> error + bool) \<Rightarrow> 'a list \<Rightarrow> error + 'a list" where
  "array_filter p [] = Inr []"
| "array_filter p (x # xs) =
     (case p x of
        Inl e \<Rightarrow> Inl e
      | Inr b \<Rightarrow>
          (case array_filter p xs of
             Inl e \<Rightarrow> Inl e
           | Inr ys \<Rightarrow> Inr (if b then x # ys else ys)))"

text \<open>\<^verbatim>\<open>find\<close> and \<^verbatim>\<open>findIndex\<close> stop at the first element the callback accepts;
  \<open>None\<close> is \<^verbatim>\<open>undefined\<close>, respectively \<^verbatim>\<open>-1\<close>.\<close>

fun array_find :: "('a \<Rightarrow> error + bool) \<Rightarrow> 'a list \<Rightarrow> error + 'a option" where
  "array_find p [] = Inr None"
| "array_find p (x # xs) =
     (case p x of
        Inl e \<Rightarrow> Inl e
      | Inr b \<Rightarrow> if b then Inr (Some x) else array_find p xs)"

fun array_findIndex :: "('a \<Rightarrow> error + bool) \<Rightarrow> 'a list \<Rightarrow> error + nat option" where
  "array_findIndex p [] = Inr None"
| "array_findIndex p (x # xs) =
     (case p x of
        Inl e \<Rightarrow> Inl e
      | Inr b \<Rightarrow>
          if b then Inr (Some 0)
          else (case array_findIndex p xs of
                  Inl e \<Rightarrow> Inl e
                | Inr None \<Rightarrow> Inr None
                | Inr (Some i) \<Rightarrow> Inr (Some (Suc i))))"

text \<open>\<^verbatim>\<open>!item\<close>: the falsy values.\<close>

definition falsy :: "json \<Rightarrow> bool" where
  "falsy v =
     (case v of
        JNull \<Rightarrow> True
      | JBool b \<Rightarrow> \<not> b
      | JNum x \<Rightarrow> x = NaN \<or> x = Num 0
      | JStr s \<Rightarrow> s = []
      | _ \<Rightarrow> False)"

subsection \<open>generateId\<close>

text \<open>
  \<^verbatim>\<open>
  const generateId = (dataArray) => {
    if (dataArray.length === 0) return 1;
    const numericIds = dataArray.map(item => parseInt(item.id)).filter(id => !isNaN(id));
    if (numericIds.length === 0) return 1;
    const maxId = Math.max(...numericIds);
    return maxId + 1;
  };
  \<close>
  On a value that is not an array, \<^verbatim>\<open>.length\<close> is \<^verbatim>\<open>0\<close> only for the empty string and
  for an object with that property; everything else reaches \<^verbatim>\<open>.map\<close>, which is not a
  function there. \<^verbatim>\<open>Math.max\<close> of the spread ids is the fold of the binary maximum; the
  limit an engine puts on the number of arguments of one call is not modelled.
\<close>

definition isNaN :: "number \<Rightarrow> bool" where
  "isNaN x = (x = NaN)"

definition generateId :: "json \<Rightarrow> error + number" where
  "generateId dataArray =
     (case dataArray of
        JArr items \<Rightarrow>
          if length items = 0 then Inr (Num 1)
          else (case array_map parseInt_item_id items of
                  Inl e \<Rightarrow> Inl e
                | Inr ids \<Rightarrow>
                    (case filter (\<lambda>ident. \<not> isNaN ident) ids of
                       [] \<Rightarrow> Inr (Num 1)
                     | n # ns \<Rightarrow> Inr (plus_one (fold Math_max ns n))))
      | JStr s \<Rightarrow> if s = [] then Inr (Num 1) else Inl TypeError
      | JObj m \<Rightarrow> if fmlookup m ''length'' = Some (JNum (Num 0)) then Inr (Num 1) else Inl TypeError
      | _ \<Rightarrow> Inl TypeError)"

section \<open>The routes\<close>

record response =
  status :: nat
  payload :: json

definition error_response :: "nat \<Rightarrow> string \<Rightarrow> response" where
  "error_response code msg = \<lparr>status = code, payload = JObj (fmap_of_list [(''error'', JStr msg)])\<rparr>"

definition message_response :: "string \<Rightarrow> json \<Rightarrow> response" where
  "message_response msg item =
     \<lparr>status = 200, payload = JObj (fmap_of_list [(''message'', JStr msg), (''data'', item)])\<rparr>"

text \<open>\<^verbatim>\<open>existingData.push(todoData)\<close>: only an array has \<^verbatim>\<open>push\<close>.\<close>

definition array_push :: "json \<Rightarrow> json \<Rightarrow> error + json" where
  "array_push existingData todoData =
     (case existingData of
        JArr items \<Rightarrow> Inr (JArr (items @ [todoData]))
      | _ \<Rightarrow> Inl TypeError)"

text \<open>The object literal \<^verbatim>\<open>{ id: x, ...req.body }\<close>: the spread comes second, so a
  property \<^verbatim>\<open>id\<close> of the body replaces \<open>x\<close>.\<close>

definition with_id :: "number \<Rightarrow> obj \<Rightarrow> json" where
  "with_id x body = JObj (fmap_of_list [(''id'', JNum x)] ++\<^sub>f body)"

text \<open>\<^verbatim>\<open>app.post("/data")\<close>\<close>

definition post_data :: "parser \<Rightarrow> printer \<Rightarrow> fs \<Rightarrow> obj \<Rightarrow> response \<times> fs" where
  "post_data JSON_parse JSON_stringify st body =
     (let existingData = readDataFromFile JSON_parse st in
      case generateId existingData of
        Inl e \<Rightarrow> (error_response 500 ''Failed to add data'', st)
      | Inr newId \<Rightarrow>
          (let todoData = with_id newId body in
           case array_push existingData todoData of
             Inl e \<Rightarrow> (error_response 500 ''Failed to add data'', st)
           | Inr existingData' \<Rightarrow>
               (message_response ''Data added successfully!'' todoData,
                writeDataToFile JSON_stringify st existingData')))"

text \<open>\<^verbatim>\<open>app.get("/data")\<close>\<close>

definition get_data :: "parser \<Rightarrow> fs \<Rightarrow> response" where
  "get_data JSON_parse st = \<lparr>status = 200, payload = readDataFromFile JSON_parse st\<rparr>"

text \<open>\<^verbatim>\<open>app.get("/data/:id")\<close>\<close>

definition get_data_id :: "parser \<Rightarrow> fs \<Rightarrow> string \<Rightarrow> response" where
  "get_data_id JSON_parse st params_id =
     (let data = readDataFromFile JSON_parse st;
          ident = parseInt_string params_id
      in case data of
           JArr items \<Rightarrow>
             (case array_find (id_matches ident) items of
                Inl e \<Rightarrow> error_response 500 ''Failed to fetch item''
              | Inr None \<Rightarrow> error_response 404 ''Item not found''
              | Inr (Some item) \<Rightarrow>
                  if falsy item then error_response 404 ''Item not found''
                  else \<lparr>status = 200, payload = item\<rparr>)
         | _ \<Rightarrow> error_response 500 ''Failed to fetch item'')"

text \<open>\<^verbatim>\<open>app.delete("/data/:id")\<close>: the filter keeps the items whose parsed id differs
  from the parsed path id.\<close>

definition id_differs :: "number \<Rightarrow> json \<Rightarrow> error + bool" where
  "id_differs ident item =
     (case parseInt_item_id item of
        Inl e \<Rightarrow> Inl e
      | Inr x \<Rightarrow> Inr (\<not> strict_eq x ident))"

definition delete_data_id :: "parser \<Rightarrow> printer \<Rightarrow> fs \<Rightarrow> string \<Rightarrow> response \<times> fs" where
  "delete_data_id JSON_parse JSON_stringify st params_id =
     (let data = readDataFromFile JSON_parse st;
          ident = parseInt_string params_id
      in case data of
           JArr items \<Rightarrow>
             (case array_filter (id_differs ident) items of
                Inl e \<Rightarrow> (error_response 500 ''Failed to delete data'', st)
              | Inr filteredData \<Rightarrow>
                  if length filteredData = length items
                  then (error_response 404 ''Item not found'', st)
                  else (\<lparr>status = 200,
                          payload = JObj (fmap_of_list [(''message'', JStr ''Data deleted successfully!'')])\<rparr>,
                        writeDataToFile JSON_stringify st (JArr filteredData)))
         | _ \<Rightarrow> (error_response 500 ''Failed to delete data'', st))"

text \<open>\<^verbatim>\<open>app.put("/data/:id")\<close>\<close>

definition put_data_id :: "parser \<Rightarrow> printer \<Rightarrow> fs \<Rightarrow> string \<Rightarrow> obj \<Rightarrow> response \<times> fs" where
  "put_data_id JSON_parse JSON_stringify st params_id body =
     (let data = readDataFromFile JSON_parse st;
          ident = parseInt_string params_id
      in case data of
           JArr items \<Rightarrow>
             (case array_findIndex (id_matches ident) items of
                Inl e \<Rightarrow> (error_response 500 ''Failed to update data'', st)
              | Inr None \<Rightarrow> (error_response 404 ''Item not found'', st)
              | Inr (Some index) \<Rightarrow>
                  (let updatedItem = with_id ident body in
                   (message_response ''Data updated successfully!'' updatedItem,
                    writeDataToFile JSON_stringify st (JArr (items[index := updatedItem])))))
         | _ \<Rightarrow> (error_response 500 ''Failed to update data'', st))"

section \<open>Vocabulary of the properties\<close>

text \<open>The id of a stored record: its property \<^verbatim>\<open>id\<close>, if it is an object and has one.\<close>

definition id_field :: "json \<Rightarrow> json option" where
  "id_field item = (case item of JObj m \<Rightarrow> fmlookup m ''id'' | _ \<Rightarrow> None)"

text \<open>A stored item is readable when \<^verbatim>\<open>parseInt(item.id)\<close> does not throw: the item is not
  \<^verbatim>\<open>null\<close> and its id converts to a string.\<close>

definition readable :: "json \<Rightarrow> bool" where
  "readable item =
     (item \<noteq> JNull \<and> (case parseInt (id_field item) of Inl e \<Rightarrow> False | Inr q \<Rightarrow> True))"

text \<open>The number a stored item's id parses to: \<open>NaN\<close> when the item has no id or its id
  does not start with an integer.\<close>

definition parsed_id :: "json \<Rightarrow> number" where
  "parsed_id item = (case parseInt (id_field item) of Inl e \<Rightarrow> NaN | Inr q \<Rightarrow> q)"

text \<open>The largest parsed id of a collection, ids that do not parse left aside.\<close>

definition largest_id :: "json list \<Rightarrow> number \<Rightarrow> bool" where
  "largest_id items m =
     (m \<noteq> NaN \<and> m \<in> parsed_id ` set items
      \<and> (\<forall>x \<in> set items. parsed_id x \<noteq> NaN \<longrightarrow> number_le (parsed_id x) m))"

text \<open>The position of the first element a predicate accepts.\<close>

fun first_index :: "('a \<Rightarrow> bool) \<Rightarrow> 'a list \<Rightarrow> nat option" where
  "first_index p [] = None"
| "first_index p (x # xs) = (if p x then Some 0 else map_option Suc (first_index p xs))"

text \<open>A stored item matches a path parameter when both parse to the same number.\<close>

definition matches_path :: "string \<Rightarrow> json \<Rightarrow> bool" where
  "matches_path params_id item = strict_eq (parsed_id item) (parseInt_string params_id)"

text \<open>The scan of \<^verbatim>\<open>find\<close> and \<^verbatim>\<open>findIndex\<close> stops at an item when the callback
  throws there or accepts it.\<close>

definition stops :: "string \<Rightarrow> json \<Rightarrow> bool" where
  "stops params_id item = (\<not> readable item \<or> matches_path params_id item)"

text \<open>A string of decimal digits.\<close>

definition decimal :: "string \<Rightarrow> bool" where
  "decimal s = (s \<noteq> [] \<and> (\<forall>c \<in> set s. \<exists>d. 0 \<le> d \<and> d < 10 \<and> c = digit_char d))"

text \<open>Records used in the examples.\<close>

definition rec1 :: json where
  "rec1 = JObj (fmap_of_list [(''id'', JNum (Num 1)), (''name'', JStr ''Ana'')])"

definition rec3 :: json where
  "rec3 = JObj (fmap_of_list
     [(''id'', JNum (Num 3)), (''name'', JStr ''Al''), (''phone'', JStr ''555'')])"

text \<open>A record whose id is the double \<open>2^53\<close>.\<close>

definition rec_big :: json where
  "rec_big = JObj (fmap_of_list [(''id'', JNum (Num 9007199254740992))])"


definition rec_tostring :: json where
  "rec_tostring = JObj (fmap_of_list
     [(''id'', JObj (fmap_of_list [(''toString'', JNum (Num 1))]))])"

text \<open>Example inputs: a parser that reads the document as a given value, a printer, a
  writable document, and a record (and request body) whose id is not a number.\<close>

definition reads_as :: "json \<Rightarrow> parser" where
  "reads_as v = (\<lambda>s. Some v)"

definition prints_doc :: printer where
  "prints_doc = (\<lambda>v. ''doc'')"

definition doc_fs :: fs where
  "doc_fs = \<lparr>data_json = Text ''doc'', writable = True\<rparr>"


definition body_abc :: obj where
  "body_abc = fmap_of_list [(''id'', JStr ''abc''), (''name'', JStr ''Bo'')]"

definition rec_abc :: json where
  "rec_abc = JObj body_abc"

text \<open>Request bodies: one that carries an id of its own, and the one of the specification's
  first scenario with the record it should create.\<close>

definition body_eve :: obj where
  "body_eve = fmap_of_list [(''id'', JNum (Num 1)), (''name'', JStr ''Eve'')]"

definition rec_eve :: json where
  "rec_eve = JObj body_eve"

definition body_ana :: obj where
  "body_ana = fmap_of_list [(''name'', JStr ''Ana''), (''email'', JStr ''a@x.com'')]"

definition rec_ana_new :: json where
  "rec_ana_new = JObj (fmap_of_list
     [(''id'', JNum (Num 1)), (''name'', JStr ''Ana''), (''email'', JStr ''a@x.com'')])"

text \<open>The update of the specification's third scenario and the record it should leave.\<close>

definition body_bea :: obj where
  "body_bea = fmap_of_list [(''name'', JStr ''Bea''), (''email'', JStr ''b@x.com'')]"

definition rec_bea3 :: json where
  "rec_bea3 = JObj (fmap_of_list
     [(''id'', JNum (Num 3)), (''name'', JStr ''Bea''), (''email'', JStr ''b@x.com'')])"

section \<open>Basic facts\<close>

lemma strict_eq_NaN [simp]: "strict_eq NaN b = False" "strict_eq a NaN = False"
  by (auto simp: strict_eq_def)

lemma strict_eq_Num [simp]: "strict_eq (Num x) (Num y) = (x = y)"
  by (simp add: strict_eq_def)

lemma strict_eq_same: "strict_eq a b \<Longrightarrow> a = b"
  by (simp add: strict_eq_def)

lemma parseInt_undefined: "parseInt None = Inr NaN"
  by code_simp

text \<open>On a readable item \<^verbatim>\<open>parseInt(item.id)\<close> returns the parsed id.\<close>

lemma parseInt_item_id_readable:
  "readable item \<Longrightarrow> parseInt_item_id item = Inr (parsed_id item)"
  by (cases item)
    (auto simp: readable_def parseInt_item_id_def item_id_def parsed_id_def id_field_def
      split: sum.splits)

lemma id_matches_readable:
  "readable item \<Longrightarrow> id_matches q item = Inr (strict_eq (parsed_id item) q)"
  by (simp add: id_matches_def parseInt_item_id_readable)

lemma id_differs_readable:
  "readable item \<Longrightarrow> id_differs q item = Inr (\<not> strict_eq (parsed_id item) q)"
  by (simp add: id_differs_def parseInt_item_id_readable)

lemma array_map_readable:
  "\<forall>x \<in> set items. readable x \<Longrightarrow>
   array_map parseInt_item_id items = Inr (map parsed_id items)"
  by (induction items) (simp_all add: parseInt_item_id_readable)

lemma array_filter_readable:
  "\<forall>x \<in> set items. readable x \<Longrightarrow>
   array_filter (id_differs q) items = Inr (filter (\<lambda>x. \<not> strict_eq (parsed_id x) q) items)"
  by (induction items) (auto simp: id_differs_readable)

lemma array_find_readable:
  "\<forall>x \<in> set items. readable x \<Longrightarrow>
   array_find (id_matches q) items = Inr (find (\<lambda>x. strict_eq (parsed_id x) q) items)"
  by (induction items) (auto simp: id_matches_readable)

lemma array_findIndex_readable:
  "\<forall>x \<in> set items. readable x \<Longrightarrow>
   array_findIndex (id_matches q) items =
     Inr (first_index (\<lambda>x. strict_eq (parsed_id x) q) items)"
  by (induction items) (auto simp: id_matches_readable split: option.splits)

lemma first_index_None_iff: "first_index p xs = None \<longleftrightarrow> (\<forall>x \<in> set xs. \<not> p x)"
  by (induction xs) auto

lemma first_index_Some:
  "first_index p xs = Some i \<Longrightarrow> i < length xs \<and> p (xs ! i) \<and> (\<forall>j < i. \<not> p (xs ! j))"
proof (induction xs arbitrary: i)
  case Nil
  then show ?case by simp
next
  case (Cons x xs)
  show ?case
  proof (cases "p x")
    case True
    with Cons.prems show ?thesis by simp
  next
    case False
    with Cons.prems obtain k where k: "first_index p xs = Some k" "i = Suc k" by auto
    from Cons.IH[OF k(1)] False k(2) show ?thesis
      by (auto simp: nth_Cons split: nat.splits)
  qed
qed

lemma find_Some_holds: "find p xs = Some x \<Longrightarrow> p x \<and> x \<in> set xs"
  by (induction xs) (auto split: if_splits)

lemma find_append:
  "find p (xs @ ys) = (case find p xs of None \<Rightarrow> find p ys | Some x \<Rightarrow> Some x)"
  by (induction xs) auto

lemma read_doc_fs: "readDataFromFile (reads_as v) doc_fs = v"
  by (simp add: readDataFromFile_def reads_as_def doc_fs_def)

lemma readable_rec1: "readable rec1" by code_simp
lemma readable_rec3: "readable rec3" by code_simp
lemma readable_rec_abc: "readable rec_abc" by code_simp
lemma readable_rec_eve: "readable rec_eve" by code_simp
lemma readable_rec_bea3: "readable rec_bea3" by code_simp
lemma parsed_id_rec1: "parsed_id rec1 = Num 1" by code_simp
lemma parsed_id_rec3: "parsed_id rec3 = Num 3" by code_simp
lemma parsed_id_rec_abc: "parsed_id rec_abc = NaN" by code_simp
lemma parseInt_string_99: "parseInt_string ''99'' = Num 99" by code_simp
lemma parseInt_string_3: "parseInt_string ''3'' = Num 3" by code_simp
lemma parseInt_string_abc: "parseInt_string ''abc'' = NaN" by code_simp
lemma matches_rec3: "matches_path ''3'' rec3" by code_simp
lemma matches_rec1: "\<not> matches_path ''3'' rec1" by code_simp
lemma matches_rec_abc: "\<not> matches_path ''3'' rec_abc" by code_simp
lemma matches_abc_abc: "\<not> matches_path ''abc'' rec_abc" by code_simp

subsection \<open>The handlers in terms of parsed ids\<close>

lemma parsed_id_not_NaN_object: "parsed_id x \<noteq> NaN \<Longrightarrow> \<exists>m. x = JObj m"
  by (cases x) (simp_all add: parsed_id_def id_field_def parseInt_undefined)

lemma matched_not_falsy: "strict_eq (parsed_id x) q \<Longrightarrow> \<not> falsy x"
proof -
  assume "strict_eq (parsed_id x) q"
  then have "parsed_id x \<noteq> NaN" by (auto simp: strict_eq_def)
  then obtain m where "x = JObj m" using parsed_id_not_NaN_object by blast
  then show ?thesis by (simp add: falsy_def)
qed

lemma get_data_id_by_parsed_ids:
  assumes "readDataFromFile JSON_parse st = JArr items" and "\<forall>x \<in> set items. readable x"
  shows "get_data_id JSON_parse st params_id =
      (case find (matches_path params_id) items of
         None \<Rightarrow> error_response 404 ''Item not found''
       | Some item \<Rightarrow> \<lparr>status = 200, payload = item\<rparr>)"
proof (cases "find (matches_path params_id) items")
  case None
  then have "array_find (id_matches (parseInt_string params_id)) items = Inr None"
    using assms(2) by (simp add: array_find_readable matches_path_def[abs_def])
  with None assms(1) show ?thesis by (simp add: get_data_id_def)
next
  case (Some item)
  then have f: "array_find (id_matches (parseInt_string params_id)) items = Inr (Some item)"
    using assms(2) by (simp add: array_find_readable matches_path_def[abs_def])
  from Some have "matches_path params_id item" using find_Some_holds by fast
  then have "\<not> falsy item" unfolding matches_path_def by (rule matched_not_falsy)
  with Some f assms(1) show ?thesis by (simp add: get_data_id_def)
qed

lemma delete_data_id_by_parsed_ids:
  assumes "readDataFromFile JSON_parse st = JArr items" and "\<forall>x \<in> set items. readable x"
  shows "delete_data_id JSON_parse JSON_stringify st params_id =
      (if \<exists>x \<in> set items. matches_path params_id x
       then (\<lparr>status = 200,
               payload = JObj (fmap_of_list [(''message'', JStr ''Data deleted successfully!'')])\<rparr>,
             writeDataToFile JSON_stringify st
               (JArr (filter (\<lambda>x. \<not> matches_path params_id x) items)))
       else (error_response 404 ''Item not found'', st))"
proof -
  let ?rest = "filter (\<lambda>x. \<not> matches_path params_id x) items"
  have d: "array_filter (id_differs (parseInt_string params_id)) items = Inr ?rest"
    using assms(2) by (simp add: array_filter_readable matches_path_def[abs_def])
  have len: "length ?rest = length items \<longleftrightarrow> \<not> (\<exists>x \<in> set items. matches_path params_id x)"
  proof
    assume "length ?rest = length items"
    then show "\<not> (\<exists>x \<in> set items. matches_path params_id x)"
      using length_filter_less[of _ items "\<lambda>x. \<not> matches_path params_id x"] by force
  next
    assume "\<not> (\<exists>x \<in> set items. matches_path params_id x)"
    then have "?rest = items" by simp
    then show "length ?rest = length items" by simp
  qed
  show ?thesis
    using assms(1) d len by (simp add: delete_data_id_def)
qed

lemma put_data_id_by_parsed_ids:
  assumes "readDataFromFile JSON_parse st = JArr items" and "\<forall>x \<in> set items. readable x"
  shows "put_data_id JSON_parse JSON_stringify st params_id body =
      (case first_index (matches_path params_id) items of
         None \<Rightarrow> (error_response 404 ''Item not found'', st)
       | Some i \<Rightarrow>
           (message_response ''Data updated successfully!''
              (with_id (parseInt_string params_id) body),
            writeDataToFile JSON_stringify st
              (JArr (items[i := with_id (parseInt_string params_id) body]))))"
  using assms
  by (simp add: put_data_id_def array_findIndex_readable matches_path_def[abs_def] Let_def
      split: option.splits)

subsection \<open>Items on which parseInt(item.id) throws\<close>

text \<open>On an item that is not readable the callbacks of the handlers throw, and so does
  the array method that called them; the handler's \<^verbatim>\<open>catch\<close> answers 500.\<close>

lemma parseInt_item_id_unreadable:
  "\<not> readable item \<Longrightarrow> parseInt_item_id item = Inl TypeError"
proof (cases "item = JNull")
  case True
  then show ?thesis by (simp add: parseInt_item_id_def item_id_def)
next
  case False
  assume "\<not> readable item"
  with False obtain e where e: "parseInt (id_field item) = Inl e"
    by (auto simp: readable_def split: sum.splits)
  have "e = TypeError" by (cases e) simp
  moreover have "item_id item = Inr (id_field item)"
    using False by (cases item) (simp_all add: item_id_def id_field_def)
  ultimately show ?thesis using e by (simp add: parseInt_item_id_def)
qed

lemma id_matches_unreadable: "\<not> readable item \<Longrightarrow> id_matches q item = Inl TypeError"
  by (simp add: id_matches_def parseInt_item_id_unreadable)

lemma id_differs_unreadable: "\<not> readable item \<Longrightarrow> id_differs q item = Inl TypeError"
  by (simp add: id_differs_def parseInt_item_id_unreadable)

lemma array_map_unreadable:
  "\<exists>x \<in> set items. \<not> readable x \<Longrightarrow> array_map parseInt_item_id items = Inl TypeError"
proof (induction items)
  case Nil
  then show ?case by simp
next
  case (Cons a items)
  show ?case
  proof (cases "readable a")
    case True
    with Cons show ?thesis by (auto simp: parseInt_item_id_readable)
  next
    case False
    then show ?thesis by (simp add: parseInt_item_id_unreadable)
  qed
qed

lemma array_filter_unreadable:
  "\<exists>x \<in> set items. \<not> readable x \<Longrightarrow> array_filter (id_differs q) items = Inl TypeError"
proof (induction items)
  case Nil
  then show ?case by simp
next
  case (Cons a items)
  show ?case
  proof (cases "readable a")
    case True
    with Cons show ?thesis by (auto simp: id_differs_readable)
  next
    case False
    then show ?thesis by (simp add: id_differs_unreadable)
  qed
qed

lemma array_find_stops:
  "array_find (id_matches q) items =
     (case find (\<lambda>x. \<not> readable x \<or> strict_eq (parsed_id x) q) items of
        None \<Rightarrow> Inr None
      | Some x \<Rightarrow> if readable x then Inr (Some x) else Inl TypeError)"
proof (induction items)
  case Nil
  then show ?case by simp
next
  case (Cons a items)
  show ?case
  proof (cases "readable a")
    case True
    with Cons show ?thesis by (simp add: id_matches_readable)
  next
    case False
    then show ?thesis by (simp add: id_matches_unreadable)
  qed
qed

lemma array_findIndex_stops:
  "array_findIndex (id_matches q) items =
     (case first_index (\<lambda>x. \<not> readable x \<or> strict_eq (parsed_id x) q) items of
        None \<Rightarrow> Inr None
      | Some i \<Rightarrow> if readable (items ! i) then Inr (Some i) else Inl TypeError)"
proof (induction items)
  case Nil
  then show ?case by simp
next
  case (Cons a items)
  show ?case
  proof (cases "readable a")
    case True
    with Cons show ?thesis by (auto simp: id_matches_readable split: option.splits)
  next
    case False
    then show ?thesis by (simp add: id_matches_unreadable)
  qed
qed

lemma generateId_unreadable:
  "\<exists>x \<in> set items. \<not> readable x \<Longrightarrow> generateId (JArr items) = Inl TypeError"
proof -
  assume a: "\<exists>x \<in> set items. \<not> readable x"
  then have "items \<noteq> []" by auto
  with array_map_unreadable[OF a] show ?thesis by (simp add: generateId_def)
qed

lemma get_data_id_on_array:
  assumes "readDataFromFile JSON_parse st = JArr items"
  shows "get_data_id JSON_parse st params_id =
      (case find (stops params_id) items of
         None \<Rightarrow> error_response 404 ''Item not found''
       | Some item \<Rightarrow>
           if readable item then \<lparr>status = 200, payload = item\<rparr>
           else error_response 500 ''Failed to fetch item'')"
proof (cases "find (stops params_id) items")
  case None
  then show ?thesis
    using assms
    by (simp add: get_data_id_def array_find_stops stops_def[abs_def] matches_path_def)
next
  case (Some item)
  show ?thesis
  proof (cases "readable item")
    case False
    with Some show ?thesis
      using assms
      by (simp add: get_data_id_def array_find_stops stops_def[abs_def] matches_path_def)
  next
    case True
    from Some have "stops params_id item" using find_Some_holds by fast
    with True have "matches_path params_id item" by (simp add: stops_def)
    then have "\<not> falsy item" unfolding matches_path_def by (rule matched_not_falsy)
    with Some True show ?thesis
      using assms
      by (simp add: get_data_id_def array_find_stops stops_def[abs_def] matches_path_def)
  qed
qed

lemma delete_data_id_on_array:
  assumes "readDataFromFile JSON_parse st = JArr items"
  shows "delete_data_id JSON_parse JSON_stringify st params_id =
      (if \<exists>x \<in> set items. \<not> readable x
       then (error_response 500 ''Failed to delete data'', st)
       else if \<exists>x \<in> set items. matches_path params_id x
       then (\<lparr>status = 200,
               payload = JObj (fmap_of_list [(''message'', JStr ''Data deleted successfully!'')])\<rparr>,
             writeDataToFile JSON_stringify st
               (JArr (filter (\<lambda>x. \<not> matches_path params_id x) items)))
       else (error_response 404 ''Item not found'', st))"
proof (cases "\<exists>x \<in> set items. \<not> readable x")
  case True
  from array_filter_unreadable[OF True] True assms show ?thesis
    by (simp add: delete_data_id_def)
next
  case False
  then have r: "\<forall>x \<in> set items. readable x" by simp
  from delete_data_id_by_parsed_ids[OF assms r] False show ?thesis by simp
qed

lemma put_data_id_on_array:
  assumes "readDataFromFile JSON_parse st = JArr items"
  shows "put_data_id JSON_parse JSON_stringify st params_id body =
      (case first_index (stops params_id) items of
         None \<Rightarrow> (error_response 404 ''Item not found'', st)
       | Some i \<Rightarrow>
           if readable (items ! i)
           then (message_response ''Data updated successfully!''
                   (with_id (parseInt_string params_id) body),
                 writeDataToFile JSON_stringify st
                   (JArr (items[i := with_id (parseInt_string params_id) body])))
           else (error_response 500 ''Failed to update data'', st))"
  using assms
  by (simp add: put_data_id_def array_findIndex_stops stops_def[abs_def] matches_path_def Let_def
      split: option.splits)

text \<open>A value that is not an array has no \<^verbatim>\<open>find\<close>, \<^verbatim>\<open>filter\<close> or \<^verbatim>\<open>findIndex\<close>.\<close>

lemma handlers_not_array:
  assumes "\<forall>items. readDataFromFile JSON_parse st \<noteq> JArr items"
  shows "get_data_id JSON_parse st params_id = error_response 500 ''Failed to fetch item''"
    and "delete_data_id JSON_parse JSON_stringify st params_id
          = (error_response 500 ''Failed to delete data'', st)"
    and "put_data_id JSON_parse JSON_stringify st params_id body
          = (error_response 500 ''Failed to update data'', st)"
  using assms
  by (cases "readDataFromFile JSON_parse st";
      simp add: get_data_id_def delete_data_id_def put_data_id_def)+

lemma readable_rec_tostring: "\<not> readable rec_tostring" by code_simp
lemma parsed_id_rec_tostring: "parsed_id rec_tostring = NaN" by code_simp

lemma stops_no_match:
  assumes "\<forall>x \<in> set items. \<not> matches_path params_id x"
  shows "find (stops params_id) items =
           (if \<forall>x \<in> set items. readable x then None
            else find (\<lambda>x. \<not> readable x) items)"
    and "first_index (stops params_id) items =
           (if \<forall>x \<in> set items. readable x then None
            else first_index (\<lambda>x. \<not> readable x) items)"
  using assms by (induction items) (auto simp: stops_def)

lemma find_unreadable:
  "\<not> (\<forall>x \<in> set items. readable x) \<Longrightarrow>
   \<exists>x. find (\<lambda>x. \<not> readable x) items = Some x \<and> \<not> readable x"
  by (induction items) auto

lemma first_index_unreadable:
  "\<not> (\<forall>x \<in> set items. readable x) \<Longrightarrow>
   \<exists>i. first_index (\<lambda>x. \<not> readable x) items = Some i \<and> \<not> readable (items ! i)"
proof (induction items)
  case Nil
  then show ?case by simp
next
  case (Cons a items)
  show ?case
  proof (cases "readable a")
    case False
    then show ?thesis by simp
  next
    case True
    with Cons.prems have "\<not> (\<forall>x \<in> set items. readable x)" by simp
    from Cons.IH[OF this] obtain i
      where "first_index (\<lambda>x. \<not> readable x) items = Some i" "\<not> readable (items ! i)"
      by blast
    with True show ?thesis by simp
  qed
qed

lemma get_data_id_no_match:
  assumes "readDataFromFile JSON_parse st = JArr items"
    and "\<forall>x \<in> set items. \<not> matches_path params_id x"
  shows "get_data_id JSON_parse st params_id =
      (if \<forall>x \<in> set items. readable x then error_response 404 ''Item not found''
       else error_response 500 ''Failed to fetch item'')"
proof (cases "\<forall>x \<in> set items. readable x")
  case True
  then show ?thesis
    using get_data_id_on_array[OF assms(1), of params_id] stops_no_match(1)[OF assms(2)]
    by simp
next
  case False
  from find_unreadable[OF False] obtain x
    where x: "find (\<lambda>x. \<not> readable x) items = Some x" "\<not> readable x" by blast
  from False have c: "(\<forall>x \<in> set items. readable x) = False" by simp
  show ?thesis
    using get_data_id_on_array[OF assms(1), of params_id]
    by (simp only: stops_no_match(1)[OF assms(2)] c x if_False option.case)
qed

lemma delete_data_id_no_match:
  assumes "readDataFromFile JSON_parse st = JArr items"
    and "\<forall>x \<in> set items. \<not> matches_path params_id x"
  shows "delete_data_id JSON_parse JSON_stringify st params_id =
      (if \<forall>x \<in> set items. readable x then error_response 404 ''Item not found''
       else error_response 500 ''Failed to delete data'', st)"
  using delete_data_id_on_array[OF assms(1), of JSON_stringify params_id] assms(2)
  by auto

lemma put_data_id_no_match:
  assumes "readDataFromFile JSON_parse st = JArr items"
    and "\<forall>x \<in> set items. \<not> matches_path params_id x"
  shows "put_data_id JSON_parse JSON_stringify st params_id body =
      (if \<forall>x \<in> set items. readable x then error_response 404 ''Item not found''
       else error_response 500 ''Failed to update data'', st)"
proof (cases "\<forall>x \<in> set items. readable x")
  case True
  then show ?thesis
    using put_data_id_on_array[OF assms(1), of JSON_stringify params_id body]
      stops_no_match(2)[OF assms(2)]
    by simp
next
  case False
  from first_index_unreadable[OF False] obtain i
    where i: "first_index (\<lambda>x. \<not> readable x) items = Some i" "\<not> readable (items ! i)"
    by blast
  from False have c: "(\<forall>x \<in> set items. readable x) = False" by simp
  show ?thesis
    using put_data_id_on_array[OF assms(1), of JSON_stringify params_id body]
    by (simp only: stops_no_match(2)[OF assms(2)] c i if_False option.case)
qed

lemma matches_99_rec1: "\<not> matches_path ''99'' rec1" by code_simp
lemma matches_99_rec3: "\<not> matches_path ''99'' rec3" by code_simp
lemma matches_99_rec_tostring: "\<not> matches_path ''99'' rec_tostring" by code_simp
lemma matches_3_rec_tostring: "\<not> matches_path ''3'' rec_tostring" by code_simp


lemma matches_big: "matches_path ''9007199254740993'' rec_big" by code_simp
lemma readable_rec_big: "readable rec_big" by code_simp

subsection \<open>Rounding, printing a number and parsing it back\<close>

lemma to_double_safe: "\<bar>n\<bar> \<le> 2 ^ 53 \<Longrightarrow> to_double n = Num n"
  by (simp add: to_double_def)

lemma plus_one_safe: "\<bar>n + 1\<bar> \<le> 2 ^ 53 \<Longrightarrow> plus_one (Num n) = Num (n + 1)"
  by (simp add: plus_one_def to_double_safe)

lemma of_char_digit_char: "0 \<le> d \<Longrightarrow> d < 10 \<Longrightarrow> (of_char (digit_char d) :: nat) = 48 + nat d"
proof -
  assume a: "0 \<le> d" "d < 10"
  then have "(of_char (digit_char d) :: int) = 48 + d"
    by (simp add: digit_char_def)
  then have "nat (of_char (digit_char d) :: int) = nat (48 + d)" by simp
  with a show ?thesis by (simp only: nat_of_char)
qed

lemma digit_value_digit_char:
  "0 \<le> d \<Longrightarrow> d < 10 \<Longrightarrow> digit_value (digit_char d) = Some (nat d)"
  by (simp add: digit_value_def of_char_digit_char Let_def)

lemma digit_char_plain:
  assumes "0 \<le> d" "d < 10"
  shows "\<not> is_white_space (digit_char d)" "digit_char d \<noteq> CHR ''-''" "digit_char d \<noteq> CHR ''+''"
    "digit_char d \<noteq> CHR ''x''" "digit_char d \<noteq> CHR ''X''" "is_digit 10 (digit_char d)"
proof -
  have v: "(of_char (digit_char d) :: nat) = 48 + nat d" using assms by (rule of_char_digit_char)
  show "\<not> is_white_space (digit_char d)" using assms by (simp add: is_white_space_def v)
  have "(of_char (digit_char d) :: nat) \<noteq> of_char CHR ''-''" using v by simp
  then show "digit_char d \<noteq> CHR ''-''" by auto
  have "(of_char (digit_char d) :: nat) \<noteq> of_char CHR ''+''" using v by simp
  then show "digit_char d \<noteq> CHR ''+''" by auto
  have "(of_char (digit_char d) :: nat) \<noteq> of_char CHR ''x''" using v assms by simp
  then show "digit_char d \<noteq> CHR ''x''" by auto
  have "(of_char (digit_char d) :: nat) \<noteq> of_char CHR ''X''" using v assms by simp
  then show "digit_char d \<noteq> CHR ''X''" by auto
  show "is_digit 10 (digit_char d)" using assms by (simp add: is_digit_def digit_value_digit_char)
qed

lemma decimal_show_nat: "0 \<le> n \<Longrightarrow> decimal (show_nat n)"
proof (induction n rule: show_nat.induct)
  case (1 n)
  show ?case
  proof (cases "n < 10")
    case True
    with 1(2) show ?thesis by (subst show_nat.simps) (auto simp: decimal_def)
  next
    case False
    have "\<exists>d. 0 \<le> d \<and> d < 10 \<and> digit_char (n mod 10) = digit_char d"
      by (rule exI[of _ "n mod 10"]) simp
    moreover from False 1 have "decimal (show_nat (n div 10))" by simp
    ultimately show ?thesis using False
      by (subst show_nat.simps) (auto simp: decimal_def)
  qed
qed

lemma digits_value_snoc:
  "digits_value r (s @ [c]) =
     digits_value r s * int r + (case digit_value c of None \<Rightarrow> 0 | Some d \<Rightarrow> int d)"
  by (simp add: digits_value_def)

lemma digits_value_show_nat: "0 \<le> n \<Longrightarrow> digits_value 10 (show_nat n) = n"
proof (induction n rule: show_nat.induct)
  case (1 n)
  show ?case
  proof (cases "n < 10")
    case True
    with 1(2) show ?thesis
      by (subst show_nat.simps) (simp add: digits_value_def digit_value_digit_char)
  next
    case False
    have m: "0 \<le> n mod 10" "n mod 10 < 10" by simp_all
    from False 1 have "digits_value 10 (show_nat (n div 10)) = n div 10" by simp
    with False show ?thesis
      by (subst show_nat.simps) (simp add: digits_value_snoc digit_value_digit_char[OF m])
  qed
qed

lemma strip_prefix_decimal: "decimal s \<Longrightarrow> strip_prefix s = (10, s)"
proof -
  assume d: "decimal s"
  then obtain c rest where s: "s = c # rest" by (cases s) (auto simp: decimal_def)
  show ?thesis
  proof (cases rest)
    case Nil
    with s show ?thesis by (simp add: strip_prefix_def)
  next
    case (Cons b rest')
    with d s obtain e where e: "0 \<le> e" "e < 10" "b = digit_char e" by (auto simp: decimal_def)
    with s Cons digit_char_plain(4,5)[OF e(1,2)] show ?thesis by (simp add: strip_prefix_def)
  qed
qed

lemma takeWhile_decimal: "decimal s \<Longrightarrow> takeWhile (is_digit 10) s = s"
  using digit_char_plain(6) by (auto simp: decimal_def takeWhile_eq_all_conv)

lemma parseInt_string_decimal:
  assumes "decimal s"
  shows "parseInt_string s = to_double (digits_value 10 s)"
proof -
  from assms obtain c rest where s: "s = c # rest" by (cases s) (auto simp: decimal_def)
  from assms s obtain d where d: "0 \<le> d" "d < 10" "c = digit_char d" by (auto simp: decimal_def)
  have w: "dropWhile is_white_space s = s"
    using s d digit_char_plain(1)[OF d(1,2)] by simp
  have sg: "strip_sign s = (False, s)"
    using s d digit_char_plain(2,3)[OF d(1,2)] by (simp add: strip_sign_def)
  have ne: "s \<noteq> []" using s by simp
  show ?thesis
    by (simp add: parseInt_string_def w sg strip_prefix_decimal[OF assms]
        takeWhile_decimal[OF assms] ne)
qed

lemma parseInt_string_minus:
  assumes "decimal s"
  shows "parseInt_string (CHR ''-'' # s) = to_double (- digits_value 10 s)"
proof -
  have ne: "s \<noteq> []" using assms by (auto simp: decimal_def)
  have nw: "\<not> is_white_space CHR ''-''" by (simp add: is_white_space_def)
  have sg: "strip_sign (CHR ''-'' # s) = (True, s)"
    by (simp add: strip_sign_def)
  show ?thesis
    by (simp add: parseInt_string_def nw sg strip_prefix_decimal[OF assms]
        takeWhile_decimal[OF assms] ne)
qed

lemma parseInt_string_show_int: "parseInt_string (show_int n) = to_double n"
proof (cases "n < 0")
  case True
  then show ?thesis
    by (simp add: show_int_def parseInt_string_minus decimal_show_nat digits_value_show_nat)
next
  case False
  then show ?thesis
    by (simp add: show_int_def parseInt_string_decimal decimal_show_nat digits_value_show_nat)
qed

lemma number_toString_safe: "\<bar>n\<bar> \<le> 2 ^ 53 \<Longrightarrow> number_toString (Num n) = show_int n"
  by (auto simp: number_toString_def show_magnitude_def show_int_def)

lemma parseInt_number: "\<bar>n\<bar> \<le> 2 ^ 53 \<Longrightarrow> parseInt (Some (JNum (Num n))) = Inr (Num n)"
  by (simp add: parseInt_def number_toString_safe parseInt_string_show_int to_double_safe)

subsection \<open>The largest number\<close>

lemma number_le_refl: "a \<noteq> NaN \<Longrightarrow> number_le a a"
  by (cases a) (simp_all add: number_le_def)

lemma number_le_trans: "number_le a b \<Longrightarrow> number_le b c \<Longrightarrow> number_le a c"
  by (cases a; cases b; cases c) (simp_all add: number_le_def)


lemma number_le_total: "a \<noteq> NaN \<Longrightarrow> b \<noteq> NaN \<Longrightarrow> number_le a b \<or> number_le b a"
  by (cases a; cases b) (auto simp: number_le_def)

lemma number_le_Num [simp]: "number_le (Num x) (Num y) = (x \<le> y)"
  by (simp add: number_le_def)

lemma fold_Math_max:
  assumes "n \<noteq> NaN" and "NaN \<notin> set ns"
  shows "fold Math_max ns n \<noteq> NaN \<and> fold Math_max ns n \<in> set (n # ns)
       \<and> (\<forall>y \<in> set (n # ns). number_le y (fold Math_max ns n))"
  using assms
proof (induction ns arbitrary: n)
  case Nil
  then show ?case by (simp add: number_le_refl)
next
  case (Cons a ns)
  let ?m = "Math_max a n"
  from Cons.prems have a: "a \<noteq> NaN" and ns: "NaN \<notin> set ns" by auto
  have m: "?m \<noteq> NaN" "?m = a \<or> ?m = n" "number_le a ?m" "number_le n ?m"
    using a Cons.prems(1) number_le_total[OF a Cons.prems(1)]
    by (auto simp: Math_max_def number_le_refl)
  from Cons.IH[OF m(1) ns]
  have ih: "fold Math_max ns ?m \<noteq> NaN" "fold Math_max ns ?m \<in> set (?m # ns)"
    "\<forall>y \<in> set (?m # ns). number_le y (fold Math_max ns ?m)" by auto
  have "number_le a (fold Math_max ns ?m)" "number_le n (fold Math_max ns ?m)"
    using ih(3) m(3,4) number_le_trans by auto
  with ih m(2) show ?case by auto
qed


lemma generateId_readable:
  assumes "\<forall>x \<in> set items. readable x"
  shows "generateId (JArr items) =
    Inr (case filter (\<lambda>q. q \<noteq> NaN) (map parsed_id items) of
           [] \<Rightarrow> Num 1
         | n # ns \<Rightarrow> plus_one (fold Math_max ns n))"
proof -
  have am: "array_map parseInt_item_id items = Inr (map parsed_id items)"
    using assms by (rule array_map_readable)
  have f: "filter (\<lambda>ident. \<not> isNaN ident) (map parsed_id items)
      = filter (\<lambda>q. q \<noteq> NaN) (map parsed_id items)"
    by (simp add: isNaN_def)
  show ?thesis
  proof (cases "items = []")
    case True
    then show ?thesis by (simp add: generateId_def)
  next
    case False
    then show ?thesis
      unfolding generateId_def by (simp add: am f split: list.splits)
  qed
qed

lemma generateId_no_ids:
  assumes "\<forall>x \<in> set items. readable x" and "\<forall>x \<in> set items. parsed_id x = NaN"
  shows "generateId (JArr items) = Inr (Num 1)"
proof -
  have "filter (\<lambda>q. q \<noteq> NaN) (map parsed_id items) = []"
    using assms(2) by (simp add: filter_empty_conv)
  then show ?thesis by (simp add: generateId_readable[OF assms(1)])
qed

lemma generateId_largest:
  assumes "\<forall>x \<in> set items. readable x" and "\<exists>x \<in> set items. parsed_id x \<noteq> NaN"
  shows "\<exists>m. largest_id items m \<and> generateId (JArr items) = Inr (plus_one m)"
proof -
  let ?ids = "filter (\<lambda>q. q \<noteq> NaN) (map parsed_id items)"
  from assms(2) have "?ids \<noteq> []" by (auto simp: filter_empty_conv)
  then obtain n ns where ids: "?ids = n # ns" by (cases ?ids) auto
  have setids: "set (n # ns) = {q \<in> parsed_id ` set items. q \<noteq> NaN}"
    using ids by (metis (mono_tags, lifting) Collect_cong list.set_map set_filter)
  then have "n \<noteq> NaN" "NaN \<notin> set ns" by auto
  from fold_Math_max[OF this] setids
  have "largest_id items (fold Math_max ns n)"
    unfolding largest_id_def by auto
  moreover have "generateId (JArr items) = Inr (plus_one (fold Math_max ns n))"
    by (simp add: generateId_readable[OF assms(1)] ids)
  ultimately show ?thesis by blast
qed


subsection \<open>The object literal and request bodies without an id\<close>

lemma with_id_no_id:
  "fmlookup body ''id'' = None \<Longrightarrow> with_id x body = JObj (fmupd ''id'' (JNum x) body)"
  unfolding with_id_def
  by (auto intro!: fmap_ext simp: fmlookup_dom_iff)

lemma id_field_with_id:
  "id_field (with_id x body) =
     Some (case fmlookup body ''id'' of None \<Rightarrow> JNum x | Some v \<Rightarrow> v)"
  by (auto simp: id_field_def with_id_def fmlookup_dom_iff split: option.splits)

lemma parsed_id_with_id:
  "fmlookup body ''id'' = None \<Longrightarrow> \<bar>g\<bar> \<le> 2 ^ 53 \<Longrightarrow>
   parsed_id (with_id (Num g) body) = Num g \<and> readable (with_id (Num g) body)"
proof -
  assume a: "fmlookup body ''id'' = None" "\<bar>g\<bar> \<le> 2 ^ 53"
  have f: "id_field (with_id (Num g) body) = Some (JNum (Num g))"
    using a(1) by (simp add: id_field_with_id)
  have ne: "with_id (Num g) body \<noteq> JNull" by (simp add: with_id_def)
  show ?thesis
    using a(2) ne by (simp add: parsed_id_def readable_def f parseInt_number)
qed

lemma post_data_array:
  assumes "readDataFromFile JSON_parse st = JArr items"
    and "generateId (JArr items) = Inr g"
  shows "post_data JSON_parse JSON_stringify st body =
      (message_response ''Data added successfully!'' (with_id g body),
       writeDataToFile JSON_stringify st (JArr (items @ [with_id g body])))"
  using assms by (simp add: post_data_def array_push_def Let_def)

lemma generateId_greater:
  assumes "\<forall>x \<in> set items. readable x"
    and "\<forall>x \<in> set items. \<forall>k. parsed_id x = Num k \<longrightarrow> \<bar>k\<bar> < 2 ^ 53"
    and "\<forall>x \<in> set items. parsed_id x \<noteq> PosInf \<and> parsed_id x \<noteq> NegInf"
  shows "\<exists>g. generateId (JArr items) = Inr (Num g) \<and> \<bar>g\<bar> \<le> 2 ^ 53
           \<and> (\<forall>x \<in> set items. parsed_id x \<noteq> Num g)"
proof (cases "\<exists>x \<in> set items. parsed_id x \<noteq> NaN")
  case False
  then have "generateId (JArr items) = Inr (Num 1)"
    using assms(1) by (simp add: generateId_no_ids)
  moreover have "\<forall>x \<in> set items. parsed_id x \<noteq> Num 1" using False by auto
  ultimately show ?thesis by simp
next
  case True
  from generateId_largest[OF assms(1) True] obtain m
    where m: "largest_id items m" "generateId (JArr items) = Inr (plus_one m)" by blast
  from m(1) obtain x where x: "x \<in> set items" "parsed_id x = m" "m \<noteq> NaN"
    unfolding largest_id_def by auto
  with assms(3) obtain n where n: "m = Num n" by (cases m) auto
  with x assms(2) have b: "\<bar>n\<bar> < 2 ^ 53" by auto
  then have g: "plus_one m = Num (n + 1)" using n by (simp add: plus_one_safe)
  have "parsed_id y \<noteq> Num (n + 1)" if "y \<in> set items" for y
  proof
    assume e: "parsed_id y = Num (n + 1)"
    with m(1) that have "number_le (Num (n + 1)) (Num n)"
      unfolding largest_id_def n by (metis number.distinct(5))
    then show False by simp
  qed
  with m(2) g b show ?thesis by auto
qed

lemma create_then_get:
  assumes "readDataFromFile JSON_parse st = JArr items"
    and "\<forall>x \<in> set items. readable x"
    and "generateId (JArr items) = Inr (Num g)"
    and "\<bar>g\<bar> \<le> 2 ^ 53"
    and "\<forall>x \<in> set items. parsed_id x \<noteq> Num g"
    and "fmlookup body ''id'' = None"
    and "writable st"
    and "JSON_stringify (JArr (items @ [with_id (Num g) body])) \<noteq> []"
    and "JSON_parse (JSON_stringify (JArr (items @ [with_id (Num g) body])))
           = Some (JArr (items @ [with_id (Num g) body]))"
  shows "fst (post_data JSON_parse JSON_stringify st body)
           = message_response ''Data added successfully!'' (with_id (Num g) body)
       \<and> get_data_id JSON_parse (snd (post_data JSON_parse JSON_stringify st body)) (show_int g)
           = \<lparr>status = 200, payload = with_id (Num g) body\<rparr>"
proof -
  let ?new = "with_id (Num g) body"
  let ?st' = "writeDataToFile JSON_stringify st (JArr (items @ [?new]))"
  have post: "post_data JSON_parse JSON_stringify st body
      = (message_response ''Data added successfully!'' ?new, ?st')"
    using assms(1,3) by (rule post_data_array)
  have load': "readDataFromFile JSON_parse ?st' = JArr (items @ [?new])"
    using assms(7,8,9) by (simp add: writeDataToFile_def readDataFromFile_def)
  have new: "parsed_id ?new = Num g" "readable ?new"
    using parsed_id_with_id[OF assms(6,4)] by simp_all
  have rd': "\<forall>x \<in> set (items @ [?new]). readable x"
    using assms(2) new(2) by simp
  have p: "parseInt_string (show_int g) = Num g"
    using assms(4) by (simp add: parseInt_string_show_int to_double_safe)
  have "\<forall>x \<in> set items. \<not> matches_path (show_int g) x"
    using assms(5) by (auto simp: matches_path_def p dest: strict_eq_same)
  then have "find (matches_path (show_int g)) items = None"
    by (simp add: find_None_iff)
  moreover have "matches_path (show_int g) ?new"
    by (simp add: matches_path_def new(1) p)
  ultimately have "find (matches_path (show_int g)) (items @ [?new]) = Some ?new"
    by (simp add: find_append)
  with get_data_id_by_parsed_ids[OF load' rd', of "show_int g"] post
  show ?thesis by simp
qed

lemma post_data_keeps_ids_unique:
  assumes "generateId (JArr items) = Inr (Num g)"
    and "\<bar>g\<bar> \<le> 2 ^ 53"
    and "\<forall>x \<in> set items. parsed_id x \<noteq> Num g"
    and "fmlookup body ''id'' = None"
    and "distinct (map parsed_id items)"
    and "NaN \<notin> set (map parsed_id items)"
  shows "distinct (map parsed_id (items @ [with_id (Num g) body]))
       \<and> NaN \<notin> set (map parsed_id (items @ [with_id (Num g) body]))"
  using assms parsed_id_with_id[OF assms(4,2)] by auto

lemma put_data_id_without_id:
  assumes "readDataFromFile JSON_parse st = JArr items"
    and "\<forall>x \<in> set items. readable x"
    and "first_index (matches_path params_id) items = Some i"
    and "fmlookup body ''id'' = None"
  shows "put_data_id JSON_parse JSON_stringify st params_id body =
      (message_response ''Data updated successfully!''
         (JObj (fmupd ''id'' (JNum (parsed_id (items ! i))) body)),
       writeDataToFile JSON_stringify st
         (JArr (items[i := JObj (fmupd ''id'' (JNum (parsed_id (items ! i))) body)])))"
proof -
  from first_index_Some[OF assms(3)] have "matches_path params_id (items ! i)" by simp
  then have "parseInt_string params_id = parsed_id (items ! i)"
    by (auto simp: matches_path_def dest: strict_eq_same)
  with put_data_id_by_parsed_ids[OF assms(1,2), of JSON_stringify params_id body] assms(3,4)
  show ?thesis by (simp add: with_id_no_id)
qed

lemma create_on_empty_store:
  "post_data JSON_parse JSON_stringify \<lparr>data_json = Absent, writable = True\<rparr> body_ana
     = (message_response ''Data added successfully!'' rec_ana_new,
        \<lparr>data_json = Text (JSON_stringify (JArr [rec_ana_new])), writable = True\<rparr>)"
proof -
  have g: "generateId (JArr []) = Inr (Num 1)" by code_simp
  have l: "readDataFromFile JSON_parse \<lparr>data_json = Absent, writable = True\<rparr> = JArr []"
    by (simp add: readDataFromFile_def)
  have w: "with_id (Num 1) body_ana = rec_ana_new" by code_simp
  show ?thesis
    using post_data_array[OF l g, of JSON_stringify body_ana]
    by (simp add: w writeDataToFile_def)
qed

lemma update_scenario:
  "put_data_id (reads_as (JArr [rec1, rec3])) JSON_stringify doc_fs ''3'' body_bea
     = (message_response ''Data updated successfully!'' rec_bea3,
        writeDataToFile JSON_stringify doc_fs (JArr [rec1, rec_bea3]))
   \<and> get_data_id (reads_as (JArr [rec1, rec_bea3])) doc_fs ''3''
       = \<lparr>status = 200, payload = rec_bea3\<rparr>"
proof -
  have h2: "\<forall>x \<in> set [rec1, rec3]. readable x" by (simp add: readable_rec1 readable_rec3)
  have h3: "\<forall>x \<in> set [rec1, rec_bea3]. readable x"
    by (simp add: readable_rec1 readable_rec_bea3)
  have w: "with_id (Num 3) body_bea = rec_bea3" by code_simp
  have m: "matches_path ''3'' rec_bea3" by code_simp
  show ?thesis
    using put_data_id_by_parsed_ids[OF read_doc_fs h2, of JSON_stringify "''3''" body_bea]
      get_data_id_by_parsed_ids[OF read_doc_fs h3, of "''3''"]
    by (simp add: matches_rec1 matches_rec3 parseInt_string_3 w m)
qed

section \<open>The store\<close>

text \<open>
  C8. \<^verbatim>\<open>readDataFromFile\<close> returns the empty array when the document is absent, cannot
  be read, is empty or does not parse, and the parsed value otherwise. It returns a value
  in every case: no error reaches the caller.
\<close>

theorem readDataFromFile_fail_open:
  "(data_json st = Absent \<longrightarrow> readDataFromFile JSON_parse st = JArr [])
   \<and> (data_json st = Unreadable \<longrightarrow> readDataFromFile JSON_parse st = JArr [])
   \<and> (data_json st = Text [] \<longrightarrow> readDataFromFile JSON_parse st = JArr [])
   \<and> (\<forall>s. data_json st = Text s \<and> JSON_parse s = None \<longrightarrow>
          readDataFromFile JSON_parse st = JArr [])
   \<and> (\<forall>s v. data_json st = Text s \<and> s \<noteq> [] \<and> JSON_parse s = Some v \<longrightarrow>
          readDataFromFile JSON_parse st = v)"
  by (simp add: readDataFromFile_def)

theorem readDataFromFile_fail_open_witness:
  "readDataFromFile (\<lambda>s. if s = ''[1]'' then Some (JArr [JNum (Num 1)]) else None)
     \<lparr>data_json = Absent, writable = True\<rparr> = JArr []
   \<and> readDataFromFile (\<lambda>s. if s = ''[1]'' then Some (JArr [JNum (Num 1)]) else None)
     \<lparr>data_json = Text [], writable = True\<rparr> = JArr []
   \<and> readDataFromFile (\<lambda>s. if s = ''[1]'' then Some (JArr [JNum (Num 1)]) else None)
     \<lparr>data_json = Text ''[1'', writable = True\<rparr> = JArr []
   \<and> readDataFromFile (\<lambda>s. if s = ''[1]'' then Some (JArr [JNum (Num 1)]) else None)
     \<lparr>data_json = Text ''[1]'', writable = True\<rparr> = JArr [JNum (Num 1)]"
  using
    readDataFromFile_fail_open
      [of "\<lparr>data_json = Absent, writable = True\<rparr>"
          "\<lambda>s. if s = ''[1]'' then Some (JArr [JNum (Num 1)]) else None"]
    readDataFromFile_fail_open
      [of "\<lparr>data_json = Text [], writable = True\<rparr>"
          "\<lambda>s. if s = ''[1]'' then Some (JArr [JNum (Num 1)]) else None"]
    readDataFromFile_fail_open
      [of "\<lparr>data_json = Text ''[1'', writable = True\<rparr>"
          "\<lambda>s. if s = ''[1]'' then Some (JArr [JNum (Num 1)]) else None"]
    readDataFromFile_fail_open
      [of "\<lparr>data_json = Text ''[1]'', writable = True\<rparr>"
          "\<lambda>s. if s = ''[1]'' then Some (JArr [JNum (Num 1)]) else None"]
  by simp

section \<open>generateId\<close>




section \<open>Requests that match no record\<close>

text \<open>
  C4. When no stored record matches the parsed path id, Delete and Update answer 404 and
  leave the collection as it was. The answer is not 404 when the collection holds a record
  whose id \<^verbatim>\<open>parseInt\<close> cannot convert: with record 1 and a record whose id is an object
  with a property \<^verbatim>\<open>toString\<close> in the store, neither matches the path id 99, and Delete
  and Update answer 500.
\<close>

theorem no_match_counterexample:
  "delete_data_id (reads_as (JArr [rec1, rec_tostring])) prints_doc doc_fs ''99''
     = (error_response 500 ''Failed to delete data'', doc_fs)
   \<and> put_data_id (reads_as (JArr [rec1, rec_tostring])) prints_doc doc_fs ''99'' body_bea
     = (error_response 500 ''Failed to update data'', doc_fs)
   \<and> parsed_id rec1 = Num 1 \<and> parsed_id rec_tostring = NaN
   \<and> parseInt_string ''99'' = Num 99"
proof -
  have n: "\<forall>x \<in> set [rec1, rec_tostring]. \<not> matches_path ''99'' x"
    by (simp add: matches_99_rec1 matches_99_rec_tostring)
  show ?thesis
    using delete_data_id_no_match[OF read_doc_fs n, of prints_doc]
      put_data_id_no_match[OF read_doc_fs n, of prints_doc body_bea]
    by (simp add: readable_rec_tostring parsed_id_rec1 parsed_id_rec_tostring
        parseInt_string_99)
qed

text \<open>
  C4, amended. When the document loads as an array and no stored item matches the path
  parameter (its parsed id differs from the parsed path id), Delete and Update leave the
  document as it was: nothing is saved. They answer 404 when every stored item is
  readable, and 500 when \<^verbatim>\<open>parseInt(item.id)\<close> throws on one of them.
\<close>

theorem no_match_not_found:
  assumes "readDataFromFile JSON_parse st = JArr items"
    and "\<forall>x \<in> set items. \<not> matches_path params_id x"
  shows "delete_data_id JSON_parse JSON_stringify st params_id
           = (if \<forall>x \<in> set items. readable x then error_response 404 ''Item not found''
              else error_response 500 ''Failed to delete data'', st)
       \<and> put_data_id JSON_parse JSON_stringify st params_id body
           = (if \<forall>x \<in> set items. readable x then error_response 404 ''Item not found''
              else error_response 500 ''Failed to update data'', st)"
  using delete_data_id_no_match[OF assms] put_data_id_no_match[OF assms] by simp

theorem no_match_not_found_witness:
  "\<forall>JSON_stringify.
     delete_data_id (reads_as (JArr [rec1, rec3])) JSON_stringify doc_fs ''99''
       = (error_response 404 ''Item not found'', doc_fs)
     \<and> put_data_id (reads_as (JArr [rec1, rec3])) JSON_stringify doc_fs ''99'' body_bea
       = (error_response 404 ''Item not found'', doc_fs)
     \<and> delete_data_id (reads_as (JArr [JNull, rec3])) JSON_stringify doc_fs ''99''
       = (error_response 500 ''Failed to delete data'', doc_fs)"
proof
  fix JSON_stringify
  have h2: "\<forall>x \<in> set [rec1, rec3]. readable x" by (simp add: readable_rec1 readable_rec3)
  have h3: "\<forall>x \<in> set [rec1, rec3]. \<not> matches_path ''99'' x"
    by (simp add: matches_99_rec1 matches_99_rec3)
  have n: "\<not> readable JNull" by (simp add: readable_def)
  have mn: "\<not> matches_path ''99'' JNull" by code_simp
  have h4: "\<forall>x \<in> set [JNull, rec3]. \<not> matches_path ''99'' x"
    by (simp add: mn matches_99_rec3)
  have a: "delete_data_id (reads_as (JArr [rec1, rec3])) JSON_stringify doc_fs ''99''
       = (error_response 404 ''Item not found'', doc_fs)"
    using no_match_not_found[OF read_doc_fs h3, THEN conjunct1, of JSON_stringify] h2 by simp
  have b: "put_data_id (reads_as (JArr [rec1, rec3])) JSON_stringify doc_fs ''99'' body_bea
       = (error_response 404 ''Item not found'', doc_fs)"
    using no_match_not_found[OF read_doc_fs h3, THEN conjunct2, of JSON_stringify body_bea] h2
    by simp
  have c: "delete_data_id (reads_as (JArr [JNull, rec3])) JSON_stringify doc_fs ''99''
       = (error_response 500 ''Failed to delete data'', doc_fs)"
    using no_match_not_found[OF read_doc_fs h4, THEN conjunct1, of JSON_stringify] n by simp
  show "delete_data_id (reads_as (JArr [rec1, rec3])) JSON_stringify doc_fs ''99''
       = (error_response 404 ''Item not found'', doc_fs)
     \<and> put_data_id (reads_as (JArr [rec1, rec3])) JSON_stringify doc_fs ''99'' body_bea
       = (error_response 404 ''Item not found'', doc_fs)
     \<and> delete_data_id (reads_as (JArr [JNull, rec3])) JSON_stringify doc_fs ''99''
       = (error_response 500 ''Failed to delete data'', doc_fs)"
    using a b c by blast
qed

text \<open>
  C10. When the path parameter does not parse to an integer no stored record matches, and
  Get, Delete and Update answer 404. The answer is not 404 when the collection holds a
  record whose id \<^verbatim>\<open>parseInt\<close> cannot convert: with only a record whose id is an object
  with a property \<^verbatim>\<open>toString\<close> in the store, the three handlers answer 500 to the path
  parameter \<^verbatim>\<open>abc\<close>.
\<close>

theorem unparseable_path_id_counterexample:
  "parseInt_string ''abc'' = NaN
   \<and> get_data_id (reads_as (JArr [rec_tostring])) doc_fs ''abc''
       = error_response 500 ''Failed to fetch item''
   \<and> delete_data_id (reads_as (JArr [rec_tostring])) prints_doc doc_fs ''abc''
       = (error_response 500 ''Failed to delete data'', doc_fs)
   \<and> put_data_id (reads_as (JArr [rec_tostring])) prints_doc doc_fs ''abc'' body_bea
       = (error_response 500 ''Failed to update data'', doc_fs)"
proof -
  have n: "\<forall>x \<in> set [rec_tostring]. \<not> matches_path ''abc'' x"
    by (simp add: matches_path_def parseInt_string_abc)
  show ?thesis
    using get_data_id_no_match[OF read_doc_fs n]
      delete_data_id_no_match[OF read_doc_fs n, of prints_doc]
      put_data_id_no_match[OF read_doc_fs n, of prints_doc body_bea]
    by (simp add: readable_rec_tostring parseInt_string_abc)
qed

text \<open>
  C10, amended. When the document loads as an array and the path parameter does not parse
  to an integer, no stored item matches, not even one whose own id does not parse, and
  Delete and Update leave the document as it was. Get, Delete and Update answer 404 when
  every stored item is readable, and 500 when \<^verbatim>\<open>parseInt(item.id)\<close> throws on one of
  them.
\<close>

theorem unparseable_path_id:
  assumes "readDataFromFile JSON_parse st = JArr items"
    and "parseInt_string params_id = NaN"
  shows "(\<forall>x \<in> set items. \<not> matches_path params_id x)
       \<and> get_data_id JSON_parse st params_id
           = (if \<forall>x \<in> set items. readable x then error_response 404 ''Item not found''
              else error_response 500 ''Failed to fetch item'')
       \<and> delete_data_id JSON_parse JSON_stringify st params_id
           = (if \<forall>x \<in> set items. readable x then error_response 404 ''Item not found''
              else error_response 500 ''Failed to delete data'', st)
       \<and> put_data_id JSON_parse JSON_stringify st params_id body
           = (if \<forall>x \<in> set items. readable x then error_response 404 ''Item not found''
              else error_response 500 ''Failed to update data'', st)"
proof -
  have n: "\<forall>x \<in> set items. \<not> matches_path params_id x"
    using assms(2) by (simp add: matches_path_def)
  show ?thesis
    using n get_data_id_no_match[OF assms(1) n] delete_data_id_no_match[OF assms(1) n]
      put_data_id_no_match[OF assms(1) n]
    by simp
qed

theorem unparseable_path_id_witness:
  "\<forall>JSON_stringify.
     parseInt_string ''abc'' = NaN
     \<and> parsed_id rec_abc = NaN
     \<and> get_data_id (reads_as (JArr [rec1, rec_abc])) doc_fs ''abc''
         = error_response 404 ''Item not found''
     \<and> delete_data_id (reads_as (JArr [rec1, rec_abc])) JSON_stringify doc_fs ''abc''
         = (error_response 404 ''Item not found'', doc_fs)
     \<and> put_data_id (reads_as (JArr [rec1, rec_abc])) JSON_stringify doc_fs ''abc'' body_bea
         = (error_response 404 ''Item not found'', doc_fs)"
proof
  fix JSON_stringify
  have h2: "\<forall>x \<in> set [rec1, rec_abc]. readable x"
    by (simp add: readable_rec1 readable_rec_abc)
  note t = unparseable_path_id[where JSON_stringify = JSON_stringify and body = body_bea,
      OF read_doc_fs parseInt_string_abc, of "[rec1, rec_abc]"]
  have g: "get_data_id (reads_as (JArr [rec1, rec_abc])) doc_fs ''abc''
         = error_response 404 ''Item not found''"
    using t[THEN conjunct2, THEN conjunct1] h2 by simp
  have d: "delete_data_id (reads_as (JArr [rec1, rec_abc])) JSON_stringify doc_fs ''abc''
         = (error_response 404 ''Item not found'', doc_fs)"
    using t[THEN conjunct2, THEN conjunct2, THEN conjunct1] h2 by simp
  have p: "put_data_id (reads_as (JArr [rec1, rec_abc])) JSON_stringify doc_fs ''abc'' body_bea
         = (error_response 404 ''Item not found'', doc_fs)"
    using t[THEN conjunct2, THEN conjunct2, THEN conjunct2] h2 by simp
  show "parseInt_string ''abc'' = NaN
     \<and> parsed_id rec_abc = NaN
     \<and> get_data_id (reads_as (JArr [rec1, rec_abc])) doc_fs ''abc''
         = error_response 404 ''Item not found''
     \<and> delete_data_id (reads_as (JArr [rec1, rec_abc])) JSON_stringify doc_fs ''abc''
         = (error_response 404 ''Item not found'', doc_fs)
     \<and> put_data_id (reads_as (JArr [rec1, rec_abc])) JSON_stringify doc_fs ''abc'' body_bea
         = (error_response 404 ''Item not found'', doc_fs)"
    using parseInt_string_abc parsed_id_rec_abc g d p by blast
qed

section \<open>Delete\<close>




section \<open>Id matching\<close>

text \<open>
  C7. Get, Delete and Update decide by \<open>matches_path\<close>: the parsed id of the stored item
  against the parsed path parameter, both through \<^verbatim>\<open>parseInt\<close>. Get and Update scan to
  the first item that matches or on which \<^verbatim>\<open>parseInt(item.id)\<close> throws; Delete reads
  every item. A stored item whose id does not parse matches no path parameter: Get never
  returns it, Update never replaces it and Delete keeps it.
\<close>

theorem id_matching_parses_both_sides:
  assumes "readDataFromFile JSON_parse st = JArr items"
  shows "get_data_id JSON_parse st params_id =
           (case find (stops params_id) items of
              None \<Rightarrow> error_response 404 ''Item not found''
            | Some item \<Rightarrow>
                if readable item then \<lparr>status = 200, payload = item\<rparr>
                else error_response 500 ''Failed to fetch item'')
       \<and> delete_data_id JSON_parse JSON_stringify st params_id =
           (if \<exists>x \<in> set items. \<not> readable x
            then (error_response 500 ''Failed to delete data'', st)
            else if \<exists>x \<in> set items. matches_path params_id x
            then (\<lparr>status = 200,
                    payload = JObj (fmap_of_list
                      [(''message'', JStr ''Data deleted successfully!'')])\<rparr>,
                  writeDataToFile JSON_stringify st
                    (JArr (filter (\<lambda>x. \<not> matches_path params_id x) items)))
            else (error_response 404 ''Item not found'', st))
       \<and> put_data_id JSON_parse JSON_stringify st params_id body =
           (case first_index (stops params_id) items of
              None \<Rightarrow> (error_response 404 ''Item not found'', st)
            | Some i \<Rightarrow>
                if readable (items ! i)
                then (message_response ''Data updated successfully!''
                        (with_id (parseInt_string params_id) body),
                      writeDataToFile JSON_stringify st
                        (JArr (items[i := with_id (parseInt_string params_id) body])))
                else (error_response 500 ''Failed to update data'', st))
       \<and> (\<forall>r. parsed_id r = NaN \<longrightarrow>
             \<not> matches_path params_id r
             \<and> get_data_id JSON_parse st params_id \<noteq> \<lparr>status = 200, payload = r\<rparr>
             \<and> (\<forall>i. first_index (stops params_id) items = Some i \<and> readable (items ! i)
                    \<longrightarrow> items ! i \<noteq> r)
             \<and> (r \<in> set items \<longrightarrow> r \<in> set (filter (\<lambda>x. \<not> matches_path params_id x) items)))"
proof -
  have never: "\<not> matches_path params_id r" if "parsed_id r = NaN" for r
    using that by (simp add: matches_path_def)
  have g: "get_data_id JSON_parse st params_id =
           (case find (stops params_id) items of
              None \<Rightarrow> error_response 404 ''Item not found''
            | Some item \<Rightarrow>
                if readable item then \<lparr>status = 200, payload = item\<rparr>
                else error_response 500 ''Failed to fetch item'')"
    using assms by (rule get_data_id_on_array)
  have ng: "get_data_id JSON_parse st params_id \<noteq> \<lparr>status = 200, payload = r\<rparr>"
    if r: "parsed_id r = NaN" for r
  proof (cases "find (stops params_id) items")
    case None
    with g show ?thesis by (simp add: error_response_def)
  next
    case (Some item)
    show ?thesis
    proof (cases "readable item")
      case False
      with Some g show ?thesis by (simp add: error_response_def)
    next
      case True
      from Some have "stops params_id item" using find_Some_holds by fast
      with True have "matches_path params_id item" by (simp add: stops_def)
      with never[OF r] have "item \<noteq> r" by blast
      with Some True g show ?thesis by simp
    qed
  qed
  have ni: "items ! i \<noteq> r"
    if "parsed_id r = NaN" "first_index (stops params_id) items = Some i \<and> readable (items ! i)"
    for r i
  proof -
    from that(2) first_index_Some[of "stops params_id" items i]
    have "stops params_id (items ! i)" "readable (items ! i)" by simp_all
    then have "matches_path params_id (items ! i)" by (simp add: stops_def)
    with never[OF that(1)] show ?thesis by blast
  qed
  have k: "r \<in> set (filter (\<lambda>x. \<not> matches_path params_id x) items)"
    if "parsed_id r = NaN" "r \<in> set items" for r
    using never[OF that(1)] that(2) by simp
  show ?thesis
    using g delete_data_id_on_array[OF assms, of JSON_stringify params_id]
      put_data_id_on_array[OF assms, of JSON_stringify params_id body] never ng ni k
    by (intro conjI allI impI) blast+
qed

theorem id_matching_parses_both_sides_witness:
  "\<forall>JSON_stringify.
     parsed_id rec_abc = NaN
     \<and> get_data_id (reads_as (JArr [rec_abc, rec3])) doc_fs ''3'' = \<lparr>status = 200, payload = rec3\<rparr>
     \<and> get_data_id (reads_as (JArr [rec_abc, rec3])) doc_fs ''abc''
         = error_response 404 ''Item not found''
     \<and> delete_data_id (reads_as (JArr [rec_abc, rec3])) JSON_stringify doc_fs ''3''
         = (\<lparr>status = 200,
              payload = JObj (fmap_of_list [(''message'', JStr ''Data deleted successfully!'')])\<rparr>,
            \<lparr>data_json = Text (JSON_stringify (JArr [rec_abc])), writable = True\<rparr>)
     \<and> put_data_id (reads_as (JArr [rec_abc, rec3])) JSON_stringify doc_fs ''3'' body_bea
         = (message_response ''Data updated successfully!'' rec_bea3,
            \<lparr>data_json = Text (JSON_stringify (JArr [rec_abc, rec_bea3])), writable = True\<rparr>)
     \<and> get_data_id (reads_as (JArr [rec_big])) doc_fs ''9007199254740993''
         = \<lparr>status = 200, payload = rec_big\<rparr>
     \<and> get_data_id (reads_as (JArr [rec_tostring, rec3])) doc_fs ''3''
         = error_response 500 ''Failed to fetch item''
     \<and> \<not> matches_path ''abc'' rec_abc
     \<and> get_data_id (reads_as (JArr [rec_abc, rec3])) doc_fs ''abc''
         \<noteq> \<lparr>status = 200, payload = rec_abc\<rparr>"
proof
  fix JSON_stringify
  have w: "with_id (Num 3) body_bea = rec_bea3" by code_simp
  have m: "\<not> matches_path ''abc'' rec3"
    by (simp add: matches_path_def parseInt_string_abc)
  have s3: "\<not> stops ''3'' rec_abc" "stops ''3'' rec3" "stops ''3'' rec_tostring"
    by (simp_all add: stops_def readable_rec_abc readable_rec_tostring matches_rec_abc
        matches_rec3)
  have sa: "\<not> stops ''abc'' rec_abc" "\<not> stops ''abc'' rec3"
    by (simp_all add: stops_def readable_rec_abc readable_rec3 matches_abc_abc m)
  have sb: "stops ''9007199254740993'' rec_big"
    by (simp add: stops_def matches_big)
  note t3 = id_matching_parses_both_sides[OF read_doc_fs, of "[rec_abc, rec3]" "''3''"
      JSON_stringify body_bea]
  note ta = id_matching_parses_both_sides[OF read_doc_fs, of "[rec_abc, rec3]" "''abc''"
      JSON_stringify body_bea]
  note tb = id_matching_parses_both_sides[OF read_doc_fs, of "[rec_big]" "''9007199254740993''"
      JSON_stringify body_bea]
  note tt = id_matching_parses_both_sides[OF read_doc_fs, of "[rec_tostring, rec3]" "''3''"
      JSON_stringify body_bea]
  have g3: "get_data_id (reads_as (JArr [rec_abc, rec3])) doc_fs ''3''
      = \<lparr>status = 200, payload = rec3\<rparr>"
    using t3[THEN conjunct1] by (simp add: s3 readable_rec3)
  have ga: "get_data_id (reads_as (JArr [rec_abc, rec3])) doc_fs ''abc''
      = error_response 404 ''Item not found''"
    using ta[THEN conjunct1] by (simp add: sa)
  have d3: "delete_data_id (reads_as (JArr [rec_abc, rec3])) JSON_stringify doc_fs ''3''
      = (\<lparr>status = 200,
           payload = JObj (fmap_of_list [(''message'', JStr ''Data deleted successfully!'')])\<rparr>,
         \<lparr>data_json = Text (JSON_stringify (JArr [rec_abc])), writable = True\<rparr>)"
    using t3[THEN conjunct2, THEN conjunct1]
    by (simp add: readable_rec_abc readable_rec3 matches_rec3 matches_rec_abc
        writeDataToFile_def doc_fs_def)
  have p3: "put_data_id (reads_as (JArr [rec_abc, rec3])) JSON_stringify doc_fs ''3'' body_bea
      = (message_response ''Data updated successfully!'' rec_bea3,
         \<lparr>data_json = Text (JSON_stringify (JArr [rec_abc, rec_bea3])), writable = True\<rparr>)"
    using t3[THEN conjunct2, THEN conjunct2, THEN conjunct1]
    by (simp add: s3 readable_rec3 parseInt_string_3 w writeDataToFile_def doc_fs_def)
  have gb: "get_data_id (reads_as (JArr [rec_big])) doc_fs ''9007199254740993''
      = \<lparr>status = 200, payload = rec_big\<rparr>"
    using tb[THEN conjunct1] by (simp add: sb readable_rec_big)
  have gt: "get_data_id (reads_as (JArr [rec_tostring, rec3])) doc_fs ''3''
      = error_response 500 ''Failed to fetch item''"
    using tt[THEN conjunct1] by (simp add: s3 readable_rec_tostring)
  have nm: "\<not> matches_path ''abc'' rec_abc
      \<and> get_data_id (reads_as (JArr [rec_abc, rec3])) doc_fs ''abc''
          \<noteq> \<lparr>status = 200, payload = rec_abc\<rparr>"
    using ta[THEN conjunct2, THEN conjunct2, THEN conjunct2, THEN spec, of rec_abc]
      parsed_id_rec_abc
    by blast
  show "parsed_id rec_abc = NaN
     \<and> get_data_id (reads_as (JArr [rec_abc, rec3])) doc_fs ''3'' = \<lparr>status = 200, payload = rec3\<rparr>
     \<and> get_data_id (reads_as (JArr [rec_abc, rec3])) doc_fs ''abc''
         = error_response 404 ''Item not found''
     \<and> delete_data_id (reads_as (JArr [rec_abc, rec3])) JSON_stringify doc_fs ''3''
         = (\<lparr>status = 200,
              payload = JObj (fmap_of_list [(''message'', JStr ''Data deleted successfully!'')])\<rparr>,
            \<lparr>data_json = Text (JSON_stringify (JArr [rec_abc])), writable = True\<rparr>)
     \<and> put_data_id (reads_as (JArr [rec_abc, rec3])) JSON_stringify doc_fs ''3'' body_bea
         = (message_response ''Data updated successfully!'' rec_bea3,
            \<lparr>data_json = Text (JSON_stringify (JArr [rec_abc, rec_bea3])), writable = True\<rparr>)
     \<and> get_data_id (reads_as (JArr [rec_big])) doc_fs ''9007199254740993''
         = \<lparr>status = 200, payload = rec_big\<rparr>
     \<and> get_data_id (reads_as (JArr [rec_tostring, rec3])) doc_fs ''3''
         = error_response 500 ''Failed to fetch item''
     \<and> \<not> matches_path ''abc'' rec_abc
     \<and> get_data_id (reads_as (JArr [rec_abc, rec3])) doc_fs ''abc''
         \<noteq> \<lparr>status = 200, payload = rec_abc\<rparr>"
    using parsed_id_rec_abc g3 ga d3 p3 gb gt nm by blast
qed

section \<open>Create and Update with an id in the request body\<close>

text \<open>
  C1. The id of a created record is the one \<^verbatim>\<open>generateId\<close> computes from the loaded
  collection, never one taken from the request body, and the ids of the stored collection
  stay unique. The handler does not keep to this when the body has an id of its own: with
  the store holding record 1 and a body that carries \<^verbatim>\<open>id: 1\<close>, the created record has the
  body's id although \<^verbatim>\<open>generateId\<close> computed 2, and the saved collection holds the id 1
  twice.
\<close>

theorem post_data_takes_client_id:
  "post_data (reads_as (JArr [rec1])) JSON_stringify doc_fs body_eve
     = (message_response ''Data added successfully!'' rec_eve,
        writeDataToFile JSON_stringify doc_fs (JArr [rec1, rec_eve]))
   \<and> generateId (JArr [rec1]) = Inr (Num 2)
   \<and> parsed_id rec_eve = parsed_id rec1"
proof -
  have g: "generateId (JArr [rec1]) = Inr (Num 2)" by code_simp
  have w: "with_id (Num 2) body_eve = rec_eve" by code_simp
  have p: "parsed_id rec_eve = parsed_id rec1" by code_simp
  show ?thesis
    using post_data_array[OF read_doc_fs g, of JSON_stringify body_eve] g p
    by (simp add: w)
qed

text \<open>
  C3. Update replaces the matching record by the fields of the body and keeps its id. The
  handler does not keep the id when the body has one of its own: with the store holding
  records 1 and 3, an update of record 3 whose body carries \<^verbatim>\<open>id: 1\<close> stores a record
  with id 1 in the place of record 3.
\<close>

theorem put_data_id_takes_client_id:
  "put_data_id (reads_as (JArr [rec1, rec3])) JSON_stringify doc_fs ''3'' body_eve
     = (message_response ''Data updated successfully!'' rec_eve,
        writeDataToFile JSON_stringify doc_fs (JArr [rec1, rec_eve]))
   \<and> parsed_id rec3 = Num 3 \<and> parsed_id rec_eve = Num 1"
proof -
  have h2: "\<forall>x \<in> set [rec1, rec3]. readable x" by (simp add: readable_rec1 readable_rec3)
  have w: "with_id (Num 3) body_eve = rec_eve" by code_simp
  have p: "parsed_id rec_eve = Num 1" by code_simp
  show ?thesis
    using put_data_id_by_parsed_ids[OF read_doc_fs h2, of JSON_stringify "''3''" body_eve] p
    by (simp add: matches_rec1 matches_rec3 parseInt_string_3 w parsed_id_rec3)
qed

text \<open>
  C6. A Create followed by a Get with the id of the returned record answers 200 with the
  created record. The handlers do not when the body has an id of its own: a Create on the
  empty store with a body that carries \<^verbatim>\<open>id: "abc"\<close> returns a record with that id, and
  the Get with the returned id answers 404.
\<close>

theorem create_then_get_client_id:
  "post_data JSON_parse prints_doc \<lparr>data_json = Absent, writable = True\<rparr> body_abc
     = (message_response ''Data added successfully!'' rec_abc, doc_fs)
   \<and> get_data_id (reads_as (JArr [rec_abc])) doc_fs ''abc''
       = error_response 404 ''Item not found''"
proof -
  have g: "generateId (JArr []) = Inr (Num 1)" by code_simp
  have l: "readDataFromFile JSON_parse \<lparr>data_json = Absent, writable = True\<rparr> = JArr []"
    by (simp add: readDataFromFile_def)
  have w: "with_id (Num 1) body_abc = rec_abc" by code_simp
  have h2: "\<forall>x \<in> set [rec_abc]. readable x" by (simp add: readable_rec_abc)
  show ?thesis
    using post_data_array[OF l g, of prints_doc body_abc]
      get_data_id_by_parsed_ids[OF read_doc_fs h2, of "''abc''"]
    by (simp add: w writeDataToFile_def prints_doc_def doc_fs_def matches_abc_abc)
qed

end
